theory Spec2Isabelle
  imports Complex_Main
begin

section \<open>The raw-terminal input state machine (class RawInputHandler)\<close>

text \<open>
  The interface \<open>InputState\<close> of the command-line front end.  The field \<open>panelVisible\<close>
  is \<open>"shortcuts" | "commands" | null\<close> in the source; \<open>historyIndex\<close> is a signed
  number because the constructor stores \<open>-1\<close> in it.  Text is a list of characters; a key
  event is the text that the terminal delivered in one \<open>data\<close> event.  A \<open>char\<close> holds
  the codes 0 to 255; the handler treats every code above 127 alike.
\<close>

datatype panel = shortcuts | commands

record InputState =
  buffer :: string
  cursorPos :: nat
  history :: "string list"
  historyIndex :: int
  thinkingEnabled :: bool
  modelSupportsThinking :: bool
  panelVisible :: "panel option"
  waiting :: bool

text \<open>
  What a key event asks of the two callbacks handed to the constructor: \<open>onExit()\<close>,
  \<open>onSubmit(input)\<close>, or neither.  Writes to the terminal change no field of the state
  and are left out.
\<close>

datatype effect = NoEffect | Exit | Submit string

text \<open>The constructor (the object literal assigned to \<open>this.state\<close>).\<close>

definition RawInputHandler :: "bool \<Rightarrow> InputState" where
  "RawInputHandler supportsThinking =
     \<lparr>buffer = [], cursorPos = 0, history = [], historyIndex = - 1,
      thinkingEnabled = True, modelSupportsThinking = supportsThinking,
      panelVisible = None, waiting = False\<rparr>"

definition setWaiting :: "bool \<Rightarrow> InputState \<Rightarrow> InputState" where
  "setWaiting w s = s\<lparr>waiting := w\<rparr>"

text \<open>
  \<open>updateModel(modelName)\<close>; the argument here is the value of
  \<open>isThinkingCapable(modelName)\<close>.
\<close>

definition updateModel :: "bool \<Rightarrow> InputState \<Rightarrow> InputState" where
  "updateModel capable s =
     (let s1 = s\<lparr>modelSupportsThinking := capable\<rparr>
      in if \<not> modelSupportsThinking s1 then s1\<lparr>thinkingEnabled := False\<rparr> else s1)"

text \<open>
  \<open>key.charCodeAt(0)\<close>: the code of the first character, \<open>NaN\<close> (here \<open>None\<close>) for the
  empty text, with which every comparison of the handler is false.
\<close>

definition charCodeAt0 :: "string \<Rightarrow> nat option" where
  "charCodeAt0 key = (case key of [] \<Rightarrow> None | c # _ \<Rightarrow> Some (of_char c))"

definition isBackspace :: "nat option \<Rightarrow> bool" where
  "isBackspace code = (code = Some 127 \<or> code = Some 8)"

text \<open>\<open>code >= 32 && code < 127\<close>\<close>

definition isRegular :: "nat option \<Rightarrow> bool" where
  "isRegular code = (case code of None \<Rightarrow> False | Some n \<Rightarrow> 32 \<le> n \<and> n < 127)"

definition upArrow :: string where
  "upArrow = [CHR 0x1B, CHR ''['', CHR ''A'']"

definition downArrow :: string where
  "downArrow = [CHR 0x1B, CHR ''['', CHR ''B'']"

definition enterKey :: string where
  "enterKey = [CHR 0x0D]"

text \<open>
  \<open>String.prototype.trim\<close> on the characters a \<open>char\<close> can hold: tab, line feed, vertical
  tab, form feed, carriage return, space and the no-break space are white space.
\<close>

definition isWhiteSpace :: "char \<Rightarrow> bool" where
  "isWhiteSpace c = ((of_char c :: nat) \<in> {9, 10, 11, 12, 13, 32, 160})"

definition trim :: "string \<Rightarrow> string" where
  "trim t = rev (dropWhile isWhiteSpace (rev (dropWhile isWhiteSpace t)))"

text \<open>
  \<open>this.state.history[i] || ""\<close>: an index outside the array reads \<open>undefined\<close>, which
  \<open>||\<close> replaces by the empty text.
\<close>

definition historyAt :: "string list \<Rightarrow> int \<Rightarrow> string" where
  "historyAt h i = (if 0 \<le> i \<and> i < int (length h) then h ! nat i else [])"

text \<open>
  The part of \<open>handleKey\<close> from the comment \<open>Tab - toggle thinking\<close> to the end of the
  method: Tab, Enter, Backspace, the two arrows, \<open>?\<close>, \<open>/\<close> and a regular character, in
  the order of the source.
\<close>

definition handleKey_main :: "string \<Rightarrow> InputState \<Rightarrow> InputState \<times> effect" where
  "handleKey_main key s =
     (let code = charCodeAt0 key in
      if code = Some 9 \<and> modelSupportsThinking s then
        (s\<lparr>thinkingEnabled := \<not> thinkingEnabled s\<rparr>, NoEffect)
      else if code = Some 13 then
        (let input = trim (buffer s);
             s1 = (if input \<noteq> []
                   then s\<lparr>history := history s @ [input],
                          historyIndex := int (length (history s @ [input]))\<rparr>
                   else s);
             s2 = s1\<lparr>buffer := [], cursorPos := 0\<rparr>
         in (s2, if input \<noteq> [] then Submit input else NoEffect))
      else if isBackspace code then
        (if length (buffer s) > 0
         then (s\<lparr>buffer := butlast (buffer s), cursorPos := length (butlast (buffer s))\<rparr>,
               NoEffect)
         else (s, NoEffect))
      else if key = upArrow then
        (if historyIndex s > 0 then
           (let i = historyIndex s - 1; b = historyAt (history s) i
            in (s\<lparr>historyIndex := i, buffer := b, cursorPos := length b\<rparr>, NoEffect))
         else (s, NoEffect))
      else if key = downArrow then
        (if historyIndex s < int (length (history s)) - 1 then
           (let i = historyIndex s + 1; b = historyAt (history s) i
            in (s\<lparr>historyIndex := i, buffer := b, cursorPos := length b\<rparr>, NoEffect))
         else
           (s\<lparr>historyIndex := int (length (history s)), buffer := [], cursorPos := 0\<rparr>,
            NoEffect))
      else if key = ''?'' \<and> length (buffer s) = 0 then
        (s\<lparr>panelVisible := Some shortcuts\<rparr>, NoEffect)
      else if key = ''/'' \<and> length (buffer s) = 0 then
        (s\<lparr>buffer := ''/'', cursorPos := 1, panelVisible := Some commands\<rparr>, NoEffect)
      else if isRegular code then
        (s\<lparr>buffer := buffer s @ key, cursorPos := length (buffer s @ key)\<rparr>, NoEffect)
      else (s, NoEffect))"

text \<open>
  The block \<open>if (this.state.panelVisible === "commands")\<close>: Escape, Backspace, Enter
  (which falls through to the rest of the method), a regular character, anything else.
\<close>

definition handleKey_commands :: "string \<Rightarrow> InputState \<Rightarrow> InputState \<times> effect" where
  "handleKey_commands key s =
     (let code = charCodeAt0 key in
      if panelVisible s = Some commands then
        (if code = Some 27 then
           (s\<lparr>panelVisible := None, buffer := [], cursorPos := 0\<rparr>, NoEffect)
         else if isBackspace code then
           (if length (buffer s) \<le> 1 then
              (s\<lparr>panelVisible := None, buffer := [], cursorPos := 0\<rparr>, NoEffect)
            else
              (s\<lparr>buffer := butlast (buffer s), cursorPos := length (butlast (buffer s))\<rparr>,
               NoEffect))
         else if code = Some 13 then handleKey_main key (s\<lparr>panelVisible := None\<rparr>)
         else if isRegular code then
           (s\<lparr>buffer := buffer s @ key, cursorPos := length (buffer s @ key)\<rparr>, NoEffect)
         else (s, NoEffect))
      else handleKey_main key s)"

text \<open>
  \<open>handleKey\<close> from its first line: Ctrl+C, the \<open>waiting\<close> gate, the shortcuts panel that
  any key dismisses, then the rest.
\<close>

definition handleKey :: "string \<Rightarrow> InputState \<Rightarrow> InputState \<times> effect" where
  "handleKey key s =
     (let code = charCodeAt0 key in
      if code = Some 3 then (s, Exit)
      else if waiting s then (s, NoEffect)
      else if panelVisible s = Some shortcuts then
        (let s1 = s\<lparr>panelVisible := None\<rparr>
         in if isBackspace code \<or> code = Some 27 then (s1, NoEffect)
            else handleKey_commands key s1)
      else handleKey_commands key s)"

text \<open>
  Feeding key events one at a time, for sequences without Ctrl+C (after which the
  process exits).  The callback \<open>onSubmit\<close> reaches the input state through
  \<open>setWaiting\<close> and \<open>updateModel\<close> only: a chat turn sets \<open>waiting\<close> and clears it
  again before \<open>handleKey\<close> draws the next prompt, so for a submitted input that is not
  a command the state after the callback is the state before it.
\<close>

fun feed :: "string list \<Rightarrow> InputState \<Rightarrow> InputState" where
  "feed [] s = s"
| "feed (key # keys) s = feed keys (fst (handleKey key s))"

text \<open>The states an input handler can be in: built by the constructor and changed by
  its three state-changing methods.\<close>

inductive reachable :: "InputState \<Rightarrow> bool" where
  constructed: "reachable (RawInputHandler supportsThinking)"
| keystroke: "reachable s \<Longrightarrow> reachable (fst (handleKey key s))"
| set_waiting: "reachable s \<Longrightarrow> reachable (setWaiting w s)"
| update_model: "reachable s \<Longrightarrow> reachable (updateModel capable s)"

text \<open>A key event that is one character with a code from 32 to 126.\<close>

definition printableKey :: "string \<Rightarrow> bool" where
  "printableKey key =
     (case key of [c] \<Rightarrow> 32 \<le> (of_char c :: nat) \<and> (of_char c :: nat) < 127 | _ \<Rightarrow> False)"

text \<open>
  The range of the history cursor as the code keeps it: \<open>-1\<close> only with an empty
  history, and a position from \<open>0\<close> to \<open>history.length\<close> otherwise.
\<close>

definition history_ok :: "InputState \<Rightarrow> bool" where
  "history_ok s =
     (if historyIndex s = - 1 then history s = []
      else 0 \<le> historyIndex s \<and> historyIndex s \<le> int (length (history s)))"

section \<open>The tool client (class MCPClientManager)\<close>

text \<open>
  A value thrown in the source: an \<open>Error\<close> object with its message, or any other value
  with the text \<open>String(value)\<close> gives for it.  \<open>errorMsg\<close> is the expression
  \<open>error instanceof Error ? error.message : String(error)\<close>.
\<close>

datatype error = Error string | Thrown string

fun errorMsg :: "error \<Rightarrow> string" where
  "errorMsg (Error message) = message"
| "errorMsg (Thrown text) = text"

text \<open>JSON values (tool arguments, input schemas) are carried as their text.\<close>

type_synonym json = string

text \<open>The interface \<open>MCPTool\<close>; the field \<open>name\<close> of the source is \<open>toolName\<close> here.\<close>

record MCPTool =
  serverName :: string
  toolName :: string
  description :: string
  inputSchema :: json

text \<open>
  The manager's fields that \<open>callTool\<close> reads: \<open>clients\<close>, a map from server names to
  connected SDK clients, is the list of its keys (the client objects are the outside
  world), and \<open>tools\<close> is the array filled by \<open>connectServer\<close>.
\<close>

record MCPClientManager =
  clients :: "string list"
  tools :: "MCPTool list"

text \<open>
  What the SDK's \<open>client.callTool\<close> resolves to: a result whose \<open>content\<close> is an array
  of items, each of type \<open>text\<close> with its text or of another type, or a result without
  such an array, given by its \<open>JSON.stringify\<close> text.
\<close>

datatype content_item = TextItem string | OtherItem

datatype call_result = ContentResult "content_item list" | PlainResult json

text \<open>
  A tool server: from the state of the outside world, a server name, a tool name and the
  arguments to what the call throws or resolves to, and the next state of the world.
\<close>

type_synonym 'w tool_server = "'w \<Rightarrow> string \<Rightarrow> string \<Rightarrow> json \<Rightarrow> (error + call_result) \<times> 'w"

fun join :: "string \<Rightarrow> string list \<Rightarrow> string" where
  "join sep [] = []"
| "join sep [x] = x"
| "join sep (x # y # ys) = x @ sep @ join sep (y # ys)"

fun itemText :: "content_item \<Rightarrow> string option" where
  "itemText (TextItem t) = Some t"
| "itemText OtherItem = None"

text \<open>The tail of \<open>callTool\<close>: the text items joined by a line feed, or the JSON text.\<close>

fun resultText :: "call_result \<Rightarrow> string" where
  "resultText (ContentResult items) = join [CHR 0x0A] (List.map_filter itemText items)"
| "resultText (PlainResult j) = j"

definition callTool ::
  "'w tool_server \<Rightarrow> MCPClientManager \<Rightarrow> string \<Rightarrow> json \<Rightarrow> 'w \<Rightarrow> (error + string) \<times> 'w" where
  "callTool server mgr requested args w =
     (case find (\<lambda>t. toolName t = requested) (tools mgr) of
        None \<Rightarrow> (Inl (Error (''Tool not found: '' @ requested)), w)
      | Some tool \<Rightarrow>
          if serverName tool \<notin> set (clients mgr)
          then (Inl (Error (''Server not connected: '' @ serverName tool)), w)
          else (case server w (serverName tool) requested args of
                  (Inl e, w') \<Rightarrow> (Inl e, w')
                | (Inr result, w') \<Rightarrow> (Inr (resultText result), w')))"

text \<open>
  \<open>getOllamaTools\<close>: one declaration \<open>{type: "function", function: {name, description,
  parameters}}\<close> for each tool.
\<close>

datatype Tool = FunctionTool string string json

definition getOllamaTools :: "MCPClientManager \<Rightarrow> Tool list" where
  "getOllamaTools mgr =
     map (\<lambda>t. FunctionTool (toolName t) (description t) (inputSchema t)) (tools mgr)"

section \<open>The model client (class OllamaClient)\<close>

text \<open>The interface \<open>ToolCall\<close>; the field \<open>name\<close> of the source is \<open>callName\<close> here.\<close>

record ToolCall =
  callName :: string
  arguments :: json

text \<open>
  A message of the chat API: role, content and the tool invocations the model requests,
  absent or a list.
\<close>

record Message =
  role :: string
  content :: string
  tool_calls :: "ToolCall list option"

text \<open>
  The model runtime behind \<open>this.client.chat\<close>: from the state of the outside world, the
  model name, the messages and the tool declarations (absent or a list) to what the
  request throws or the message it resolves to, and the next state of the world.
\<close>

type_synonym 'w model_runtime =
  "'w \<Rightarrow> string \<Rightarrow> Message list \<Rightarrow> Tool list option \<Rightarrow> (error + Message) \<times> 'w"

text \<open>
  \<open>OllamaClient.chat(messages, tools)\<close> without a stream callback: the reply's message
  and its \<open>tool_calls\<close> as \<open>toolCalls\<close>.
\<close>

definition ollamaChat ::
  "'w model_runtime \<Rightarrow> string \<Rightarrow> Message list \<Rightarrow> Tool list option \<Rightarrow> 'w \<Rightarrow>
     (error + Message \<times> ToolCall list option) \<times> 'w" where
  "ollamaChat runtime modelName msgs decls w =
     (case runtime w modelName msgs decls of
        (Inl e, w') \<Rightarrow> (Inl e, w')
      | (Inr m, w') \<Rightarrow> (Inr (m, tool_calls m), w'))"

section \<open>The tool-call orchestrator (class Agent)\<close>

text \<open>
  The interfaces \<open>AgentResponse\<close> and \<open>ChatTurn\<close> (role, content, optional tool names;
  the time stamp is left out).
\<close>

datatype AgentResponse = AgentResponse (answer: string) (toolsUsed: "string list")

datatype ChatTurn = ChatTurn string string "string list option"

text \<open>
  The agent: the model name of its model client, its tool client, the two fields of its
  configuration, and the two histories.  The session's start time is left out.
  \<open>maxToolCalls\<close> is a number that \<open>loadConfig\<close> takes from the configuration file as
  it is: any finite number, whole or not, positive or not.  (A number too large for a
  double is read as \<open>Infinity\<close>; with it the loop has no bound, and it is not a value of
  this type.  \<open>-Infinity\<close> acts as any negative number does.)
\<close>

record Agent =
  model :: string
  mcpClient :: MCPClientManager
  maxToolCalls :: real
  systemPrompt :: string
  conversationHistory :: "Message list"
  chatHistory :: "ChatTurn list"

definition systemMessage :: "Agent \<Rightarrow> Message" where
  "systemMessage a = \<lparr>role = ''system'', content = systemPrompt a, tool_calls = None\<rparr>"

definition initialize :: "Agent \<Rightarrow> Agent" where
  "initialize a = a\<lparr>conversationHistory := [systemMessage a]\<rparr>"

definition clearHistory :: "Agent \<Rightarrow> Agent" where
  "clearHistory a = a\<lparr>conversationHistory := [systemMessage a], chatHistory := []\<rparr>"

text \<open>
  The calls a turn makes to its two collaborators, in order, each with what it was given
  and what came back.
\<close>

datatype event =
    ModelCall "Message list" "Tool list option" "error + Message"
  | ToolDispatch string json "error + string"

text \<open>
  A turn in progress: the agent, the local variables \<open>toolCallCount\<close> and \<open>toolsUsed\<close>
  of \<open>chat\<close>, the calls made so far and the state of the outside world.
\<close>

record 'w turn =
  agent :: Agent
  toolCallCount :: nat
  used :: "string list"
  calls :: "event list"
  world :: "'w"

definition pushMessage :: "Message \<Rightarrow> Agent \<Rightarrow> Agent" where
  "pushMessage m a = a\<lparr>conversationHistory := conversationHistory a @ [m]\<rparr>"

definition pushTurn :: "ChatTurn \<Rightarrow> Agent \<Rightarrow> Agent" where
  "pushTurn t a = a\<lparr>chatHistory := chatHistory a @ [t]\<rparr>"

definition toolMessage :: "error + string \<Rightarrow> Message" where
  "toolMessage outcome =
     \<lparr>role = ''tool'',
      content = (case outcome of Inr result \<Rightarrow> result | Inl e \<Rightarrow> ''Error: '' @ errorMsg e),
      tool_calls = None\<rparr>"

text \<open>
  The body of \<open>for (const toolCall of response.toolCalls)\<close>: count the call, record the
  name, dispatch, and push a tool message with the result or, in the \<open>catch\<close> branch,
  with the error text.
\<close>

definition dispatchToolCall :: "'w tool_server \<Rightarrow> ToolCall \<Rightarrow> 'w turn \<Rightarrow> 'w turn" where
  "dispatchToolCall server tc t =
     (case callTool server (mcpClient (agent t)) (callName tc) (arguments tc) (world t) of
        (outcome, w') \<Rightarrow>
          t\<lparr>toolCallCount := toolCallCount t + 1,
            used := used t @ [callName tc],
            agent := pushMessage (toolMessage outcome) (agent t),
            calls := calls t @ [ToolDispatch (callName tc) (arguments tc) outcome],
            world := w'\<rparr>)"

fun processToolCalls :: "'w tool_server \<Rightarrow> ToolCall list \<Rightarrow> 'w turn \<Rightarrow> 'w turn" where
  "processToolCalls server [] t = t"
| "processToolCalls server (tc # tcs) t =
     processToolCalls server tcs (dispatchToolCall server tc t)"

text \<open>The assistant entry of the export transcript that both exits of \<open>chat\<close> push.\<close>

definition assistantTurn :: "string \<Rightarrow> string list \<Rightarrow> ChatTurn" where
  "assistantTurn text names =
     ChatTurn ''assistant'' text (if length names > 0 then Some names else None)"

text \<open>
  The statements after the loop: one model call without tool declarations, its message
  pushed, its content or the placeholder returned.
\<close>

definition finalAnswer :: "'w model_runtime \<Rightarrow> 'w turn \<Rightarrow> (error + AgentResponse) \<times> 'w turn" where
  "finalAnswer runtime t =
     (let msgs = conversationHistory (agent t) in
      case ollamaChat runtime (model (agent t)) msgs None (world t) of
        (Inl e, w') \<Rightarrow> (Inl e, t\<lparr>calls := calls t @ [ModelCall msgs None (Inl e)], world := w'\<rparr>)
      | (Inr (m, tcs), w') \<Rightarrow>
          (let text = (if content m = [] then ''(No response)'' else content m)
           in (Inr (AgentResponse text (used t)),
               t\<lparr>agent := pushTurn (assistantTurn text (used t)) (pushMessage m (agent t)),
                 calls := calls t @ [ModelCall msgs None (Inr m)],
                 world := w'\<rparr>)))"

text \<open>
  What one model reply inside the loop leads to: the call threw, the reply requests no
  tool and ends the turn, or its tool calls have been processed and the loop goes on.
\<close>

datatype 'w step = Threw error "'w turn" | Answered AgentResponse "'w turn" | Continue "'w turn"

text \<open>\<open>tools.length > 0 ? tools : undefined\<close>\<close>

definition attached :: "Tool list \<Rightarrow> Tool list option" where
  "attached decls = (if length decls > 0 then Some decls else None)"

text \<open>The body of \<open>while (toolCallCount < this.config.maxToolCalls)\<close>.\<close>

definition loopBody ::
  "'w model_runtime \<Rightarrow> 'w tool_server \<Rightarrow> Tool list \<Rightarrow> 'w turn \<Rightarrow> 'w step" where
  "loopBody runtime server decls t =
     (let msgs = conversationHistory (agent t); given = attached decls in
      case ollamaChat runtime (model (agent t)) msgs given (world t) of
        (Inl e, w') \<Rightarrow> Threw e (t\<lparr>calls := calls t @ [ModelCall msgs given (Inl e)], world := w'\<rparr>)
      | (Inr (m, toolCalls), w') \<Rightarrow>
          (let t1 = t\<lparr>agent := pushMessage m (agent t),
                      calls := calls t @ [ModelCall msgs given (Inr m)],
                      world := w'\<rparr>
           in case toolCalls of
                None \<Rightarrow>
                  Answered (AgentResponse (content m) (used t1))
                    (t1\<lparr>agent := pushTurn (assistantTurn (content m) (used t1)) (agent t1)\<rparr>)
              | Some tcs \<Rightarrow>
                  if length tcs = 0 then
                    Answered (AgentResponse (content m) (used t1))
                      (t1\<lparr>agent := pushTurn (assistantTurn (content m) (used t1)) (agent t1)\<rparr>)
                  else Continue (processToolCalls server tcs t1)))"

text \<open>How far the loop still is from its budget.\<close>

definition budgetLeft :: "'w turn \<Rightarrow> nat" where
  "budgetLeft t = nat \<lceil>maxToolCalls (agent t) - real (toolCallCount t)\<rceil>"

function chatLoop ::
  "'w model_runtime \<Rightarrow> 'w tool_server \<Rightarrow> Tool list \<Rightarrow> 'w turn \<Rightarrow>
     (error + AgentResponse) \<times> 'w turn" where
  "chatLoop runtime server decls t =
     (if real (toolCallCount t) < maxToolCalls (agent t) then
        (case loopBody runtime server decls t of
           Threw e t' \<Rightarrow> (Inl e, t')
         | Answered response t' \<Rightarrow> (Inr response, t')
         | Continue t' \<Rightarrow> chatLoop runtime server decls t')
      else finalAnswer runtime t)"
  by pat_completeness auto

lemma dispatchToolCall_budget:
  "toolCallCount (dispatchToolCall server tc t) = toolCallCount t + 1 \<and>
   maxToolCalls (agent (dispatchToolCall server tc t)) = maxToolCalls (agent t)"
  by (simp add: dispatchToolCall_def pushMessage_def split: prod.split)

lemma processToolCalls_budget:
  "toolCallCount (processToolCalls server tcs t) = toolCallCount t + length tcs \<and>
   maxToolCalls (agent (processToolCalls server tcs t)) = maxToolCalls (agent t)"
  by (induction tcs arbitrary: t) (simp_all add: dispatchToolCall_budget)

lemma loopBody_Continue_budget:
  assumes "loopBody runtime server decls t = Continue t'"
  shows "toolCallCount t < toolCallCount t' \<and>
         maxToolCalls (agent t') = maxToolCalls (agent t)"
  using assms
  by (auto simp: loopBody_def Let_def pushMessage_def processToolCalls_budget
      split: prod.splits sum.splits option.splits if_splits)

termination chatLoop
proof (relation "measure (\<lambda>(runtime, server, decls, t). budgetLeft t)")
  show "wf (measure (\<lambda>(runtime, server, decls, t). budgetLeft t))" by simp
next
  fix runtime :: "'w model_runtime" and server :: "'w tool_server"
    and decls :: "Tool list" and t t' :: "'w turn"
  assume lt: "real (toolCallCount t) < maxToolCalls (agent t)"
    and c: "loopBody runtime server decls t = Continue t'"
  from loopBody_Continue_budget [OF c]
  have m: "maxToolCalls (agent t') = maxToolCalls (agent t)"
    and "real (toolCallCount t) + 1 \<le> real (toolCallCount t')"
    by simp_all
  then have "\<lceil>maxToolCalls (agent t) - real (toolCallCount t')\<rceil>
               \<le> \<lceil>maxToolCalls (agent t) - real (toolCallCount t) - 1\<rceil>"
    by (intro ceiling_mono) simp
  also have "\<dots> = \<lceil>maxToolCalls (agent t) - real (toolCallCount t)\<rceil> - 1"
    by simp
  finally have "\<lceil>maxToolCalls (agent t) - real (toolCallCount t')\<rceil>
                  < \<lceil>maxToolCalls (agent t) - real (toolCallCount t)\<rceil>"
    by simp
  moreover from lt have "0 < \<lceil>maxToolCalls (agent t) - real (toolCallCount t)\<rceil>"
    by simp
  ultimately
  show "((runtime, server, decls, t'), (runtime, server, decls, t))
          \<in> measure (\<lambda>(runtime, server, decls, t). budgetLeft t)"
    using m by (simp add: budgetLeft_def)
qed

text \<open>
  \<open>Agent.chat(userMessage)\<close>: the user's message goes to the transcript and to the
  conversation, then the loop runs with the count at zero.  The result is what the
  promise settles to (rejected with the error or fulfilled with the response) and the
  turn's final state.
\<close>

definition chat ::
  "'w model_runtime \<Rightarrow> 'w tool_server \<Rightarrow> string \<Rightarrow> Agent \<Rightarrow> 'w \<Rightarrow>
     (error + AgentResponse) \<times> 'w turn" where
  "chat runtime server userMessage a w =
     (let a1 = pushTurn (ChatTurn ''user'' userMessage None) a;
          a2 = pushMessage \<lparr>role = ''user'', content = userMessage, tool_calls = None\<rparr> a1;
          decls = getOllamaTools (mcpClient a2)
      in chatLoop runtime server decls
           \<lparr>agent = a2, toolCallCount = 0, used = [], calls = [], world = w\<rparr>)"

text \<open>Counting the tool dispatches among the calls of a turn.\<close>

fun isDispatch :: "event \<Rightarrow> bool" where
  "isDispatch (ToolDispatch n args outcome) = True"
| "isDispatch (ModelCall msgs decls reply) = False"

definition dispatches :: "event list \<Rightarrow> nat" where
  "dispatches evs = length (filter isDispatch evs)"

text \<open>The invocation a dispatch event answers.\<close>

fun requestOf :: "event \<Rightarrow> ToolCall option" where
  "requestOf (ToolDispatch n args outcome) = Some \<lparr>callName = n, arguments = args\<rparr>"
| "requestOf (ModelCall msgs decls reply) = None"

text \<open>
  How many invocations the reply of a model call requests (none when the call threw; a
  dispatch is not a reply).
\<close>

fun invocations :: "event \<Rightarrow> nat" where
  "invocations (ModelCall msgs decls (Inr m)) =
     (case tool_calls m of None \<Rightarrow> 0 | Some reqs \<Rightarrow> length reqs)"
| "invocations (ModelCall msgs decls (Inl e)) = 0"
| "invocations (ToolDispatch n args outcome) = 0"

text \<open>
  Several turns in a row, each on the agent and the world the previous one left, whether
  it was fulfilled or rejected.
\<close>

fun chatTurns ::
  "'w model_runtime \<Rightarrow> 'w tool_server \<Rightarrow> string list \<Rightarrow> Agent \<Rightarrow> 'w \<Rightarrow> Agent \<times> 'w" where
  "chatTurns runtime server [] a w = (a, w)"
| "chatTurns runtime server (userMessage # rest) a w =
     chatTurns runtime server rest
       (agent (snd (chat runtime server userMessage a w)))
       (world (snd (chat runtime server userMessage a w)))"

section \<open>The cancellable round-trip runner (the chat branch of \<open>onSubmit\<close> in \<open>runCLI\<close>)\<close>

text \<open>
  What the runner reads and writes while one submitted input is handled: the input
  handler (for \<open>waiting\<close>), the session's agent, the outside world, whether the interval
  timer of the turn is running, how many \<open>escapeHandler\<close> listeners are registered on
  the terminal input, the local flag \<open>cancelled\<close> and the state of the abort controller's
  signal.
\<close>

record 'w runner =
  inputHandler :: InputState
  sessionAgent :: Agent
  outside :: "'w"
  timerRunning :: bool
  escapeListeners :: nat
  cancelled :: bool
  aborted :: bool

text \<open>
  What can happen while the runner awaits \<open>Promise.race\<close>: the terminal delivers a key,
  the interval timer fires, the 100 ms timeout of \<open>checkCancelled\<close> fires, or the promise
  of \<open>agent.chat\<close> settles.
\<close>

datatype turn_event = KeyData string | TimerTick | PollWake | ChatSettled

datatype race_result =
  RaceResponse AgentResponse | RaceCancelled | RaceRejected error | ProcessExit

datatype turn_outcome = Responded AgentResponse | Cancelled | Failed error | Exited

definition escapeKey :: string where
  "escapeKey = [CHR 0x1B]"

text \<open>\<open>escapeHandler\<close>: a lone ESC sets the flag, aborts the controller and clears the timer.\<close>

definition escapeHandler :: "string \<Rightarrow> 'w runner \<Rightarrow> 'w runner" where
  "escapeHandler key s =
     (if key = escapeKey then s\<lparr>cancelled := True, aborted := True, timerRunning := False\<rparr>
      else s)"

text \<open>
  The race, event by event.  A key goes to \<open>handleKey\<close> first (registered by \<open>start\<close>), then
  to \<open>escapeHandler\<close>; Ctrl+C leaves through \<open>onExit\<close>.  The timer callback only writes to
  the terminal.  \<open>checkCancelled\<close> resolves at a wake-up that finds the flag set.  When
  no event settles either promise the runner is still waiting, which is \<open>None\<close>.
\<close>

fun race ::
  "error + AgentResponse \<Rightarrow> turn_event list \<Rightarrow> 'w runner \<Rightarrow> (race_result \<times> 'w runner) option" where
  "race settled [] s = None"
| "race settled (KeyData key # evs) s =
     (case handleKey key (inputHandler s) of
        (h, Exit) \<Rightarrow> Some (ProcessExit, s\<lparr>inputHandler := h\<rparr>)
      | (h, eff) \<Rightarrow> race settled evs (escapeHandler key (s\<lparr>inputHandler := h\<rparr>)))"
| "race settled (TimerTick # evs) s = race settled evs s"
| "race settled (PollWake # evs) s =
     (if cancelled s then Some (RaceCancelled, s) else race settled evs s)"
| "race settled (ChatSettled # evs) s =
     (case settled of
        Inr response \<Rightarrow> Some (RaceResponse response, s)
      | Inl e \<Rightarrow> Some (RaceRejected e, s))"

text \<open>The three statements under the comment \<open>Cleanup\<close>.\<close>

definition cleanup :: "'w runner \<Rightarrow> 'w runner" where
  "cleanup s =
     s\<lparr>timerRunning := False,
       escapeListeners := escapeListeners s - 1,
       inputHandler := setWaiting False (inputHandler s)\<rparr>"

text \<open>
  One turn: \<open>setWaiting(true)\<close>, the flags, the listener, the timer, the call
  \<open>session.agent.chat(input, abortController.signal)\<close> and the race; then the cleanup
  and the result, or the \<open>catch\<close> block, whose only statement on the state is
  \<open>setWaiting(false)\<close>.  \<open>Agent.chat\<close> declares one parameter, so the signal passed as
  second argument reaches nothing.  The promise of \<open>chat\<close> is not interrupted by the
  race: the agent and the outside world end the turn as \<open>chat\<close> leaves them.  The result
  carries the calls \<open>chat\<close> made.
\<close>

definition runTurn ::
  "'w model_runtime \<Rightarrow> 'w tool_server \<Rightarrow> string \<Rightarrow> turn_event list \<Rightarrow> 'w runner \<Rightarrow>
     (turn_outcome \<times> 'w runner \<times> event list) option" where
  "runTurn runtime server input evs s =
     (let s1 = s\<lparr>inputHandler := setWaiting True (inputHandler s),
                 cancelled := False, aborted := False\<rparr>;
          s2 = s1\<lparr>escapeListeners := escapeListeners s1 + 1\<rparr>;
          s3 = s2\<lparr>timerRunning := True\<rparr>;
          (settled, t) = chat runtime server input (sessionAgent s3) (outside s3);
          s4 = s3\<lparr>sessionAgent := agent t, outside := world t\<rparr>
      in case race settled evs s4 of
           None \<Rightarrow> None
         | Some (RaceResponse response, s5) \<Rightarrow> Some (Responded response, cleanup s5, calls t)
         | Some (RaceCancelled, s5) \<Rightarrow> Some (Cancelled, cleanup s5, calls t)
         | Some (RaceRejected e, s5) \<Rightarrow>
             Some (Failed e, s5\<lparr>inputHandler := setWaiting False (inputHandler s5)\<rparr>, calls t)
         | Some (ProcessExit, s5) \<Rightarrow> Some (Exited, s5, calls t))"

section \<open>Example collaborators\<close>

text \<open>
  A tool client with one connected server and one tool, an agent built on it with a given
  budget, a tool server that always returns one text item, and three model runtimes.
  The outside world of the examples is the number of model calls made so far.
\<close>

definition exampleManager :: MCPClientManager where
  "exampleManager =
     \<lparr>clients = [''vault''],
      tools = [\<lparr>serverName = ''vault'', toolName = ''search'',
                description = ''Search the notes'', inputSchema = ''{}''\<rparr>]\<rparr>"

definition exampleAgent :: "real \<Rightarrow> Agent" where
  "exampleAgent budget =
     initialize \<lparr>model = ''qwen3:8b'', mcpClient = exampleManager, maxToolCalls = budget,
                 systemPrompt = ''Be brief.'', conversationHistory = [], chatHistory = []\<rparr>"

definition exampleServer :: "nat tool_server" where
  "exampleServer w server tool args = (Inr (ContentResult [TextItem ''note.md'']), w)"

definition searchCall :: ToolCall where
  "searchCall = \<lparr>callName = ''search'', arguments = ''{}''\<rparr>"

definition missingCall :: ToolCall where
  "missingCall = \<lparr>callName = ''missing'', arguments = ''{}''\<rparr>"

text \<open>A model that requests one tool invocation in every reply, with empty content.\<close>

definition oneToolEachReply :: "nat model_runtime" where
  "oneToolEachReply w modelName msgs decls =
     (Inr \<lparr>role = ''assistant'', content = [], tool_calls = Some [searchCall]\<rparr>, Suc w)"

text \<open>The same, with a text in every reply.\<close>

definition oneToolWithText :: "nat model_runtime" where
  "oneToolWithText w modelName msgs decls =
     (Inr \<lparr>role = ''assistant'', content = ''answer'', tool_calls = Some [searchCall]\<rparr>,
      Suc w)"


text \<open>A model that first requests three invocations in one reply, then answers.\<close>

definition threeAtOnce :: "nat model_runtime" where
  "threeAtOnce w modelName msgs decls =
     (if w = 0
      then (Inr \<lparr>role = ''assistant'', content = [],
                 tool_calls = Some [searchCall, searchCall, searchCall]\<rparr>, Suc w)
      else (Inr \<lparr>role = ''assistant'', content = ''done'', tool_calls = None\<rparr>, Suc w))"

text \<open>A model runtime that cannot be reached: every request throws.\<close>

definition unreachable :: "nat model_runtime" where
  "unreachable w modelName msgs decls = (Inl (Error ''fetch failed''), w)"

definition exampleRunner :: "real \<Rightarrow> nat runner" where
  "exampleRunner budget =
     \<lparr>inputHandler = RawInputHandler True, sessionAgent = exampleAgent budget, outside = 0,
      timerRunning = False, escapeListeners = 0, cancelled = False, aborted = False\<rparr>"

section \<open>Predicates used in the proofs\<close>



text \<open>
  The last dispatches among the calls \<open>evs\<close> are those of the invocations \<open>reqs\<close>, all of
  them and in order, right after the model reply that requested them.
\<close>

definition endsWithBatch :: "event list \<Rightarrow> ToolCall list \<Rightarrow> bool" where
  "endsWithBatch evs reqs =
     (\<exists>pre msgs given m ds post.
        evs = pre @ ModelCall msgs given (Inr m) # ds @ post \<and> tool_calls m = Some reqs \<and>
        map requestOf ds = map Some reqs \<and> dispatches post = 0)"

text \<open>
  From the turn state \<open>t\<close> to the later state \<open>t'\<close> the count follows the dispatches, and
  when there were any, the count is below the budget plus the size of the last batch.
\<close>

definition withinBudget :: "'w turn \<Rightarrow> 'w turn \<Rightarrow> bool" where
  "withinBudget t t' =
     (\<exists>ext. calls t' = calls t @ ext \<and>
        toolCallCount t' = toolCallCount t + dispatches ext \<and>
        (dispatches ext = 0 \<or>
         (\<exists>reqs. endsWithBatch ext reqs \<and>
            real (toolCallCount t') < maxToolCalls (agent t) + real (length reqs))))"



section \<open>Properties of the input state machine\<close>

lemmas handleKey_defs = handleKey_def handleKey_commands_def handleKey_main_def
  charCodeAt0_def isBackspace_def isRegular_def historyAt_def Let_def

subsection \<open>The history cursor\<close>

lemma handleKey_main_history_ok:
  "history_ok s \<Longrightarrow> history_ok (fst (handleKey_main key s))"
  unfolding history_ok_def handleKey_main_def Let_def
  by (auto split: if_splits)

lemma handleKey_commands_history_ok:
  "history_ok s \<Longrightarrow> history_ok (fst (handleKey_commands key s))"
  unfolding handleKey_commands_def Let_def
  using handleKey_main_history_ok [of "s\<lparr>panelVisible := None\<rparr>" key]
        handleKey_main_history_ok [of s key]
  by (auto simp: history_ok_def split: if_splits)

lemma handleKey_history_ok:
  "history_ok s \<Longrightarrow> history_ok (fst (handleKey key s))"
  unfolding handleKey_def Let_def
  using handleKey_commands_history_ok [of "s\<lparr>panelVisible := None\<rparr>" key]
        handleKey_commands_history_ok [of s key]
  by (auto simp: history_ok_def split: if_splits)

lemma reachable_history_ok: "reachable s \<Longrightarrow> history_ok s"
proof (induction rule: reachable.induct)
  case (constructed supportsThinking)
  show ?case by (simp add: RawInputHandler_def history_ok_def)
next
  case (keystroke s key)
  from keystroke.IH show ?case by (rule handleKey_history_ok)
next
  case (set_waiting s w)
  then show ?case by (simp add: setWaiting_def history_ok_def)
next
  case (update_model s capable)
  then show ?case by (simp add: updateModel_def Let_def history_ok_def)
qed

text \<open>
  Claim C4, as the spec states it: in every reachable state, the state right after
  construction included, \<open>historyIndex\<close> lies in \<open>[0, history.length]\<close>.  The constructor
  stores \<open>-1\<close>, so the state it builds is outside that interval.
\<close>

theorem historyIndex_counterexample:
  "reachable (RawInputHandler True) \<and>
   \<not> (0 \<le> historyIndex (RawInputHandler True) \<and>
      historyIndex (RawInputHandler True) \<le> int (length (history (RawInputHandler True))))"
  using reachable.constructed [of True] by (simp add: RawInputHandler_def)

text \<open>
  Claim C4, amended: in every reachable state, either \<open>historyIndex\<close> is \<open>-1\<close> and
  \<open>history\<close> is empty, or \<open>historyIndex\<close> lies in \<open>[0, history.length]\<close>.  So
  \<open>historyIndex\<close> always lies in \<open>[-1, history.length]\<close>, and in \<open>[0, history.length]\<close>
  whenever \<open>history\<close> is not empty.
\<close>

theorem historyIndex_range:
  "reachable s \<Longrightarrow>
     (historyIndex s = - 1 \<and> history s = []) \<or>
     (0 \<le> historyIndex s \<and> historyIndex s \<le> int (length (history s)))"
  using reachable_history_ok [of s] by (auto simp: history_ok_def split: if_splits)

theorem historyIndex_range_witness:
  "reachable (fst (handleKey upArrow (fst (handleKey enterKey
      (fst (handleKey ''a'' (RawInputHandler True))))))) \<and>
   historyIndex (fst (handleKey upArrow (fst (handleKey enterKey
      (fst (handleKey ''a'' (RawInputHandler True))))))) = 0 \<and>
   history (fst (handleKey upArrow (fst (handleKey enterKey
      (fst (handleKey ''a'' (RawInputHandler True))))))) = [''a'']"
proof -
  have r: "reachable (fst (handleKey upArrow (fst (handleKey enterKey
      (fst (handleKey ''a'' (RawInputHandler True)))))))"
    by (intro reachable.keystroke reachable.constructed)
  have e: "fst (handleKey upArrow (fst (handleKey enterKey
      (fst (handleKey ''a'' (RawInputHandler True)))))) =
      (RawInputHandler True)\<lparr>buffer := ''a'', cursorPos := 1, history := [''a''],
        historyIndex := 0\<rparr>"
    by (simp add: handleKey_defs RawInputHandler_def enterKey_def upArrow_def downArrow_def
        trim_def isWhiteSpace_def)
  from historyIndex_range [OF r] r show ?thesis
    unfolding e by simp
qed

subsection \<open>Typing printable characters\<close>

lemma printable_step:
  assumes "printableKey key" "\<not> waiting s" "cursorPos s = length (buffer s)"
          "buffer s = [] \<longrightarrow> panelVisible s \<noteq> Some commands"
  shows "buffer (fst (handleKey key s)) =
           (if buffer s = [] \<and> key = ''?'' then [] else buffer s @ key) \<and>
         \<not> waiting (fst (handleKey key s)) \<and>
         cursorPos (fst (handleKey key s)) = length (buffer (fst (handleKey key s))) \<and>
         (buffer (fst (handleKey key s)) = [] \<longrightarrow>
            panelVisible (fst (handleKey key s)) \<noteq> Some commands)"
proof -
  from assms(1) obtain c
    where k: "key = [c]" and c: "32 \<le> (of_char c :: nat)" "(of_char c :: nat) < 127"
    by (auto simp: printableKey_def split: list.splits)
  have ne: "[c] \<noteq> upArrow" "[c] \<noteq> downArrow"
    by (simp_all add: upArrow_def downArrow_def)
  show ?thesis
  proof (cases "panelVisible s")
    case None
    with k c ne assms(2-) show ?thesis
      by (simp add: handleKey_defs)
  next
    case (Some p)
    with k c ne assms(2-) show ?thesis
      by (cases p) (simp_all add: handleKey_defs)
  qed
qed

lemma feed_printable:
  assumes "\<forall>k \<in> set keys. printableKey k" "\<not> waiting s" "cursorPos s = length (buffer s)"
          "buffer s = [] \<longrightarrow> panelVisible s \<noteq> Some commands"
  shows "buffer (feed keys s) =
           (if buffer s = [] then concat (dropWhile (\<lambda>k. k = ''?'') keys)
            else buffer s @ concat keys) \<and>
         cursorPos (feed keys s) = length (buffer (feed keys s))"
  using assms
proof (induction keys arbitrary: s)
  case Nil
  then show ?case by simp
next
  case (Cons key keys)
  have pk: "printableKey key" using Cons.prems(1) by simp
  note st = printable_step [OF pk Cons.prems(2) Cons.prems(3) Cons.prems(4)]
  have ne: "key \<noteq> []" using pk by (auto simp: printableKey_def)
  have ih: "buffer (feed keys (fst (handleKey key s))) =
           (if buffer (fst (handleKey key s)) = []
            then concat (dropWhile (\<lambda>k. k = ''?'') keys)
            else buffer (fst (handleKey key s)) @ concat keys) \<and>
         cursorPos (feed keys (fst (handleKey key s))) =
           length (buffer (feed keys (fst (handleKey key s))))"
    using Cons.IH [of "fst (handleKey key s)"] Cons.prems(1) st by simp
  show ?case
  proof (cases "buffer s = [] \<and> key = ''?''")
    case True
    with ih st show ?thesis by simp
  next
    case False
    with ih st ne show ?thesis by auto
  qed
qed

text \<open>
  Claim C5, as the spec states it: feeding printable keystrokes to the machine from the
  empty buffer leaves the concatenation of the keystrokes in the buffer.  The key \<open>?\<close>
  has code 63 and is printable, but typed at an empty buffer it opens the shortcuts panel
  and is not appended.
\<close>

theorem printable_keystrokes_counterexample:
  "printableKey ''?'' \<and>
   buffer (feed [''?''] (RawInputHandler True)) \<noteq> concat [''?'']"
  by (simp add: printableKey_def handleKey_defs RawInputHandler_def upArrow_def
      downArrow_def)

text \<open>
  Claim C5, amended: for every sequence of printable keystrokes (one character each, codes
  32 to 126), fed one at a time to a newly constructed machine, the buffer after every
  step is the concatenation of the keystrokes fed so far with the leading \<open>?\<close>
  keystrokes removed (a \<open>?\<close> typed at an empty buffer opens the shortcuts panel instead
  of being appended), and \<open>cursorPos\<close> is the length of the buffer after every step.
\<close>

theorem printable_keystrokes_buffer:
  assumes "\<forall>k \<in> set keys. printableKey k" and "n \<le> length keys"
  shows "buffer (feed (take n keys) (RawInputHandler m)) =
           concat (dropWhile (\<lambda>k. k = ''?'') (take n keys)) \<and>
         cursorPos (feed (take n keys) (RawInputHandler m)) =
           length (buffer (feed (take n keys) (RawInputHandler m)))"
proof -
  have p: "\<forall>k \<in> set (take n keys). printableKey k"
    using assms(1) by (meson in_set_takeD)
  have i: "\<not> waiting (RawInputHandler m)"
    "cursorPos (RawInputHandler m) = length (buffer (RawInputHandler m))"
    "buffer (RawInputHandler m) = [] \<longrightarrow> panelVisible (RawInputHandler m) \<noteq> Some commands"
    "buffer (RawInputHandler m) = []"
    by (simp_all add: RawInputHandler_def)
  from feed_printable [OF p i(1) i(2) i(3)] i(4) show ?thesis by simp
qed

theorem printable_keystrokes_buffer_witness:
  "printableKey ''?'' \<and> printableKey ''h'' \<and> printableKey ''i'' \<and>
   (4::nat) \<le> length [''?'', ''h'', ''i'', ''?''] \<and>
   buffer (feed [''?'', ''h'', ''i'', ''?''] (RawInputHandler True)) = ''hi?'' \<and>
   cursorPos (feed [''?'', ''h'', ''i'', ''?''] (RawInputHandler True)) = 3"
proof -
  have k: "printableKey ''?''" "printableKey ''h''" "printableKey ''i''"
    by (simp_all add: printableKey_def)
  then have p: "\<forall>k \<in> set [''?'', ''h'', ''i'', ''?'']. printableKey k"
    by simp
  have n: "(4::nat) \<le> length [''?'', ''h'', ''i'', ''?'']" by simp
  from printable_keystrokes_buffer [OF p n, of True] k n show ?thesis by simp
qed

subsection \<open>Browsing the history\<close>


lemma arrow_up_frame:
  "fst (handleKey upArrow s) =
     s\<lparr>buffer := buffer (fst (handleKey upArrow s)),
       cursorPos := cursorPos (fst (handleKey upArrow s)),
       historyIndex := historyIndex (fst (handleKey upArrow s)),
       panelVisible := (if waiting s then panelVisible s else None)\<rparr> \<and>
   snd (handleKey upArrow s) = NoEffect"
proof (cases "waiting s")
  case True
  then show ?thesis by (simp add: handleKey_defs upArrow_def downArrow_def)
next
  case False
  show ?thesis
  proof (cases "panelVisible s")
    case None
    with False show ?thesis by (simp add: handleKey_defs upArrow_def downArrow_def)
  next
    case (Some p)
    with False show ?thesis
      by (cases p) (simp_all add: handleKey_defs upArrow_def downArrow_def)
  qed
qed

lemma arrow_down_frame:
  "fst (handleKey downArrow s) =
     s\<lparr>buffer := buffer (fst (handleKey downArrow s)),
       cursorPos := cursorPos (fst (handleKey downArrow s)),
       historyIndex := historyIndex (fst (handleKey downArrow s)),
       panelVisible := (if waiting s then panelVisible s else None)\<rparr> \<and>
   snd (handleKey downArrow s) = NoEffect"
proof (cases "waiting s")
  case True
  then show ?thesis by (simp add: handleKey_defs upArrow_def downArrow_def)
next
  case False
  show ?thesis
  proof (cases "panelVisible s")
    case None
    with False show ?thesis by (simp add: handleKey_defs upArrow_def downArrow_def)
  next
    case (Some p)
    with False show ?thesis
      by (cases p) (simp_all add: handleKey_defs upArrow_def downArrow_def)
  qed
qed

text \<open>
  Claim C8, as the spec states it: after an arrow key only \<open>historyIndex\<close>, \<open>buffer\<close> and
  \<open>cursorPos\<close> may differ.  An arrow is the three characters ESC \<open>[\<close> \<open>A\<close> (or \<open>B\<close>), and
  its first character dismisses an open panel: after \<open>?\<close> has opened the shortcuts panel,
  an Up arrow changes \<open>panelVisible\<close>.
\<close>

theorem arrows_frame_counterexample:
  "panelVisible (fst (handleKey ''?'' (RawInputHandler True))) = Some shortcuts \<and>
   panelVisible (fst (handleKey upArrow (fst (handleKey ''?'' (RawInputHandler True))))) =
     None"
  by (simp add: handleKey_defs RawInputHandler_def upArrow_def downArrow_def)

text \<open>
  Claim C8, amended: for every Up-arrow or Down-arrow keystroke processed in any state,
  the history sequence is unchanged afterwards, no callback is invoked, and only
  \<open>historyIndex\<close>, \<open>buffer\<close>, \<open>cursorPos\<close> and \<open>panelVisible\<close> may differ from the state
  before the keystroke; \<open>panelVisible\<close> is unchanged while \<open>waiting\<close> is set and is
  cleared otherwise (an arrow received while a panel is open dismisses the panel).
\<close>

theorem arrows_frame:
  "fst (handleKey upArrow s) =
     s\<lparr>buffer := buffer (fst (handleKey upArrow s)),
       cursorPos := cursorPos (fst (handleKey upArrow s)),
       historyIndex := historyIndex (fst (handleKey upArrow s)),
       panelVisible := (if waiting s then panelVisible s else None)\<rparr> \<and>
   fst (handleKey downArrow s) =
     s\<lparr>buffer := buffer (fst (handleKey downArrow s)),
       cursorPos := cursorPos (fst (handleKey downArrow s)),
       historyIndex := historyIndex (fst (handleKey downArrow s)),
       panelVisible := (if waiting s then panelVisible s else None)\<rparr> \<and>
   history (fst (handleKey upArrow s)) = history s \<and>
   history (fst (handleKey downArrow s)) = history s \<and>
   snd (handleKey upArrow s) = NoEffect \<and> snd (handleKey downArrow s) = NoEffect"
proof -
  have u: "fst (handleKey upArrow s) =
     s\<lparr>buffer := buffer (fst (handleKey upArrow s)),
       cursorPos := cursorPos (fst (handleKey upArrow s)),
       historyIndex := historyIndex (fst (handleKey upArrow s)),
       panelVisible := (if waiting s then panelVisible s else None)\<rparr>"
    and ue: "snd (handleKey upArrow s) = NoEffect"
    using arrow_up_frame [of s] by simp_all
  have d: "fst (handleKey downArrow s) =
     s\<lparr>buffer := buffer (fst (handleKey downArrow s)),
       cursorPos := cursorPos (fst (handleKey downArrow s)),
       historyIndex := historyIndex (fst (handleKey downArrow s)),
       panelVisible := (if waiting s then panelVisible s else None)\<rparr>"
    and de: "snd (handleKey downArrow s) = NoEffect"
    using arrow_down_frame [of s] by simp_all
  have uh: "history (fst (handleKey upArrow s)) = history s"
    by (subst u) simp
  have dh: "history (fst (handleKey downArrow s)) = history s"
    by (subst d) simp
  from u d ue de uh dh show ?thesis by blast
qed

section \<open>Properties of the orchestrator\<close>

declare chatLoop.simps [simp del]

subsection \<open>One pass through the loop\<close>

lemma loopBody_threw:
  assumes "runtime (world t) (model (agent t)) (conversationHistory (agent t))
             (attached decls) = (Inl e, w')"
  shows "loopBody runtime server decls t =
           Threw e (t\<lparr>calls := calls t @ [ModelCall (conversationHistory (agent t))
                                            (attached decls) (Inl e)],
                      world := w'\<rparr>)"
  using assms by (simp add: loopBody_def ollamaChat_def Let_def)

lemma loopBody_answered:
  assumes "runtime (world t) (model (agent t)) (conversationHistory (agent t))
             (attached decls) = (Inr m, w')"
      and "tool_calls m = None \<or> tool_calls m = Some []"
  shows "loopBody runtime server decls t =
           Answered (AgentResponse (content m) (used t))
             (t\<lparr>agent := pushTurn (assistantTurn (content m) (used t))
                           (pushMessage m (agent t)),
                calls := calls t @ [ModelCall (conversationHistory (agent t))
                                      (attached decls) (Inr m)],
                world := w'\<rparr>)"
  using assms by (auto simp add: loopBody_def ollamaChat_def Let_def)

lemma loopBody_continue:
  assumes "runtime (world t) (model (agent t)) (conversationHistory (agent t))
             (attached decls) = (Inr m, w')"
      and "tool_calls m = Some tcs" and "tcs \<noteq> []"
  shows "loopBody runtime server decls t =
           Continue (processToolCalls server tcs
             (t\<lparr>agent := pushMessage m (agent t),
                calls := calls t @ [ModelCall (conversationHistory (agent t))
                                      (attached decls) (Inr m)],
                world := w'\<rparr>))"
  using assms by (simp add: loopBody_def ollamaChat_def Let_def)

lemma finalAnswer_threw:
  assumes "runtime (world t) (model (agent t)) (conversationHistory (agent t)) None =
             (Inl e, w')"
  shows "finalAnswer runtime t =
           (Inl e, t\<lparr>calls := calls t @ [ModelCall (conversationHistory (agent t)) None (Inl e)],
                     world := w'\<rparr>)"
  using assms by (simp add: finalAnswer_def ollamaChat_def Let_def)

lemma finalAnswer_replied:
  assumes "runtime (world t) (model (agent t)) (conversationHistory (agent t)) None =
             (Inr m, w')"
  shows "finalAnswer runtime t =
           (Inr (AgentResponse (if content m = [] then ''(No response)'' else content m)
                   (used t)),
            t\<lparr>agent := pushTurn
                          (assistantTurn (if content m = [] then ''(No response)'' else content m)
                             (used t))
                          (pushMessage m (agent t)),
              calls := calls t @ [ModelCall (conversationHistory (agent t)) None (Inr m)],
              world := w'\<rparr>)"
  using assms by (simp add: finalAnswer_def ollamaChat_def Let_def)

lemma chatLoop_continue:
  assumes "real (toolCallCount t) < maxToolCalls (agent t)"
      and "loopBody runtime server decls t = Continue t'"
  shows "chatLoop runtime server decls t = chatLoop runtime server decls t'"
  using assms by (subst chatLoop.simps) simp

lemma chatLoop_threw:
  assumes "real (toolCallCount t) < maxToolCalls (agent t)"
      and "loopBody runtime server decls t = Threw e t'"
  shows "chatLoop runtime server decls t = (Inl e, t')"
  using assms by (subst chatLoop.simps) simp

lemma chatLoop_answered:
  assumes "real (toolCallCount t) < maxToolCalls (agent t)"
      and "loopBody runtime server decls t = Answered r t'"
  shows "chatLoop runtime server decls t = (Inr r, t')"
  using assms by (subst chatLoop.simps) simp

lemma chatLoop_exhausted:
  assumes "\<not> real (toolCallCount t) < maxToolCalls (agent t)"
  shows "chatLoop runtime server decls t = finalAnswer runtime t"
  using assms by (subst chatLoop.simps) simp

lemma dispatchToolCall_fields:
  "\<exists>outcome w'. dispatchToolCall server tc t =
      t\<lparr>toolCallCount := toolCallCount t + 1, used := used t @ [callName tc],
        agent := pushMessage (toolMessage outcome) (agent t),
        calls := calls t @ [ToolDispatch (callName tc) (arguments tc) outcome],
        world := w'\<rparr>"
  by (cases "callTool server (mcpClient (agent t)) (callName tc) (arguments tc) (world t)")
     (auto simp: dispatchToolCall_def)

lemma dispatchToolCall_result:
  assumes "callTool server (mcpClient (agent t)) (callName tc) (arguments tc) (world t) =
             (outcome, w')"
  shows "dispatchToolCall server tc t =
      t\<lparr>toolCallCount := toolCallCount t + 1, used := used t @ [callName tc],
        agent := pushMessage (toolMessage outcome) (agent t),
        calls := calls t @ [ToolDispatch (callName tc) (arguments tc) outcome],
        world := w'\<rparr>"
  using assms by (simp add: dispatchToolCall_def)

lemma chat_chatLoop:
  "chat runtime server userMessage a w =
     chatLoop runtime server (getOllamaTools (mcpClient a))
       \<lparr>agent = pushMessage \<lparr>role = ''user'', content = userMessage, tool_calls = None\<rparr>
                  (pushTurn (ChatTurn ''user'' userMessage None) a),
        toolCallCount = 0, used = [], calls = [], world = w\<rparr>"
  by (simp add: chat_def Let_def pushMessage_def pushTurn_def)

lemmas chat_eval = chat_def chatLoop.simps loopBody_def finalAnswer_def ollamaChat_def
  dispatchToolCall_def callTool_def attached_def getOllamaTools_def pushMessage_def
  pushTurn_def toolMessage_def assistantTurn_def Let_def dispatches_def
  exampleManager_def exampleAgent_def exampleServer_def initialize_def systemMessage_def
  searchCall_def missingCall_def

subsection \<open>A budget of two and a model that always asks for one tool\<close>

text \<open>
  Claim C2: with \<open>maxToolCalls = 2\<close> and a model runtime that answers every request
  with a message requesting exactly one tool invocation, one call of \<open>chat\<close> does
  exactly this, in this order.  It sends the history (the agent's history and the user's
  message) with the declarations \<open>tools.length > 0 ? tools : undefined\<close> to the model
  and gets \<open>m1\<close>, which requests \<open>tc1\<close>; it dispatches \<open>tc1\<close> with \<open>callTool\<close> and
  gets \<open>o1\<close>; it sends the history extended by \<open>m1\<close> and the tool message of \<open>o1\<close>, with
  the same declarations, and gets \<open>m2\<close>, which requests \<open>tc2\<close>; it dispatches \<open>tc2\<close> and
  gets \<open>o2\<close>; it sends the history extended by \<open>m2\<close> and the tool message of \<open>o2\<close>
  without tool declarations and gets \<open>m3\<close>.  These five calls are all the calls of the
  turn.  The turn is fulfilled with the content of \<open>m3\<close>, or with \<open>(No response)\<close> when
  that content is empty, and with the two tool names; \<open>m3\<close> is the last message of the
  conversation history.
\<close>

theorem budget_two_one_tool_per_reply:
  assumes two: "maxToolCalls a = 2"
      and one: "\<forall>w n msgs decls. \<exists>m tc w'.
                 runtime w n msgs decls = (Inr m, w') \<and> tool_calls m = Some [tc]"
  shows "\<exists>m1 tc1 w1 o1 v1 m2 tc2 w2 o2 v2 m3 w3.
           runtime w (model a)
             (conversationHistory a @
                [\<lparr>role = ''user'', content = userMessage, tool_calls = None\<rparr>])
             (attached (getOllamaTools (mcpClient a))) = (Inr m1, w1) \<and>
           tool_calls m1 = Some [tc1] \<and>
           callTool server (mcpClient a) (callName tc1) (arguments tc1) w1 = (o1, v1) \<and>
           runtime v1 (model a)
             (conversationHistory a @
                [\<lparr>role = ''user'', content = userMessage, tool_calls = None\<rparr>,
                 m1, toolMessage o1])
             (attached (getOllamaTools (mcpClient a))) = (Inr m2, w2) \<and>
           tool_calls m2 = Some [tc2] \<and>
           callTool server (mcpClient a) (callName tc2) (arguments tc2) w2 = (o2, v2) \<and>
           runtime v2 (model a)
             (conversationHistory a @
                [\<lparr>role = ''user'', content = userMessage, tool_calls = None\<rparr>,
                 m1, toolMessage o1, m2, toolMessage o2])
             None = (Inr m3, w3) \<and>
           calls (snd (chat runtime server userMessage a w)) =
             [ModelCall
                (conversationHistory a @
                   [\<lparr>role = ''user'', content = userMessage, tool_calls = None\<rparr>])
                (attached (getOllamaTools (mcpClient a))) (Inr m1),
              ToolDispatch (callName tc1) (arguments tc1) o1,
              ModelCall
                (conversationHistory a @
                   [\<lparr>role = ''user'', content = userMessage, tool_calls = None\<rparr>,
                    m1, toolMessage o1])
                (attached (getOllamaTools (mcpClient a))) (Inr m2),
              ToolDispatch (callName tc2) (arguments tc2) o2,
              ModelCall
                (conversationHistory a @
                   [\<lparr>role = ''user'', content = userMessage, tool_calls = None\<rparr>,
                    m1, toolMessage o1, m2, toolMessage o2])
                None (Inr m3)] \<and>
           fst (chat runtime server userMessage a w) =
             Inr (AgentResponse (if content m3 = [] then ''(No response)'' else content m3)
                    [callName tc1, callName tc2]) \<and>
           conversationHistory (agent (snd (chat runtime server userMessage a w))) =
             conversationHistory a @
               [\<lparr>role = ''user'', content = userMessage, tool_calls = None\<rparr>,
                m1, toolMessage o1, m2, toolMessage o2, m3] \<and>
           world (snd (chat runtime server userMessage a w)) = w3"
proof -
  define decls where "decls = getOllamaTools (mcpClient a)"
  define h1 where "h1 = conversationHistory a @
                [\<lparr>role = ''user'', content = userMessage, tool_calls = None\<rparr>]"
  define t0 :: "'a turn" where "t0 =
     \<lparr>agent = pushMessage \<lparr>role = ''user'', content = userMessage, tool_calls = None\<rparr>
                (pushTurn (ChatTurn ''user'' userMessage None) a),
      toolCallCount = 0, used = [], calls = [], world = w\<rparr>"
  have c0: "chat runtime server userMessage a w = chatLoop runtime server decls t0"
    by (simp add: chat_chatLoop t0_def decls_def)
  have b0: "maxToolCalls (agent t0) = 2" "toolCallCount t0 = 0" "used t0 = []" "calls t0 = []"
    "model (agent t0) = model a" "mcpClient (agent t0) = mcpClient a" "world t0 = w"
    "conversationHistory (agent t0) = h1"
    by (simp_all add: t0_def two pushMessage_def pushTurn_def h1_def)
  \<comment> \<open>the first reply\<close>
  from one obtain m1 tc1 w1 where
    r1: "runtime w (model a) h1 (attached decls) = (Inr m1, w1)"
    and k1: "tool_calls m1 = Some [tc1]" by blast
  define u1 where "u1 = t0\<lparr>agent := pushMessage m1 (agent t0),
      calls := calls t0 @ [ModelCall (conversationHistory (agent t0)) (attached decls) (Inr m1)],
      world := w1\<rparr>"
  obtain o1 v1 where
    x1: "callTool server (mcpClient a) (callName tc1) (arguments tc1) w1 = (o1, v1)"
    by (cases "callTool server (mcpClient a) (callName tc1) (arguments tc1) w1")
  have d1: "dispatchToolCall server tc1 u1 =
      u1\<lparr>toolCallCount := toolCallCount u1 + 1, used := used u1 @ [callName tc1],
        agent := pushMessage (toolMessage o1) (agent u1),
        calls := calls u1 @ [ToolDispatch (callName tc1) (arguments tc1) o1], world := v1\<rparr>"
    by (rule dispatchToolCall_result) (simp add: u1_def b0 pushMessage_def x1)
  define t1 where "t1 = dispatchToolCall server tc1 u1"
  have r1': "runtime (world t0) (model (agent t0)) (conversationHistory (agent t0))
           (attached decls) = (Inr m1, w1)"
    using r1 by (simp add: b0)
  have l1: "loopBody runtime server decls t0 = Continue t1"
    using loopBody_continue [where runtime = runtime and t = t0 and decls = decls
        and server = server, OF r1' k1]
    by (simp add: t1_def u1_def)
  have s1: "chatLoop runtime server decls t0 = chatLoop runtime server decls t1"
    by (rule chatLoop_continue [OF _ l1]) (simp add: b0)
  have b1: "maxToolCalls (agent t1) = 2" "toolCallCount t1 = 1" "used t1 = [callName tc1]"
    "calls t1 = [ModelCall h1 (attached decls) (Inr m1),
                 ToolDispatch (callName tc1) (arguments tc1) o1]"
    "model (agent t1) = model a" "mcpClient (agent t1) = mcpClient a" "world t1 = v1"
    "conversationHistory (agent t1) = h1 @ [m1, toolMessage o1]"
    unfolding t1_def d1 by (simp_all add: u1_def b0 pushMessage_def)
  \<comment> \<open>the second reply\<close>
  from one obtain m2 tc2 w2 where
    r2: "runtime v1 (model a) (h1 @ [m1, toolMessage o1]) (attached decls) = (Inr m2, w2)"
    and k2: "tool_calls m2 = Some [tc2]" by blast
  define u2 where "u2 = t1\<lparr>agent := pushMessage m2 (agent t1),
      calls := calls t1 @ [ModelCall (conversationHistory (agent t1)) (attached decls) (Inr m2)],
      world := w2\<rparr>"
  obtain o2 v2 where
    x2: "callTool server (mcpClient a) (callName tc2) (arguments tc2) w2 = (o2, v2)"
    by (cases "callTool server (mcpClient a) (callName tc2) (arguments tc2) w2")
  have d2: "dispatchToolCall server tc2 u2 =
      u2\<lparr>toolCallCount := toolCallCount u2 + 1, used := used u2 @ [callName tc2],
        agent := pushMessage (toolMessage o2) (agent u2),
        calls := calls u2 @ [ToolDispatch (callName tc2) (arguments tc2) o2], world := v2\<rparr>"
    by (rule dispatchToolCall_result) (simp add: u2_def b1 pushMessage_def x2)
  define t2 where "t2 = dispatchToolCall server tc2 u2"
  have r2': "runtime (world t1) (model (agent t1)) (conversationHistory (agent t1))
           (attached decls) = (Inr m2, w2)"
    using r2 by (simp add: b1)
  have l2: "loopBody runtime server decls t1 = Continue t2"
    using loopBody_continue [where runtime = runtime and t = t1 and decls = decls
        and server = server, OF r2' k2]
    by (simp add: t2_def u2_def)
  have s2: "chatLoop runtime server decls t1 = chatLoop runtime server decls t2"
    by (rule chatLoop_continue [OF _ l2]) (simp add: b1)
  have b2: "maxToolCalls (agent t2) = 2" "toolCallCount t2 = 2"
    "used t2 = [callName tc1, callName tc2]"
    "calls t2 = [ModelCall h1 (attached decls) (Inr m1),
                 ToolDispatch (callName tc1) (arguments tc1) o1,
                 ModelCall (h1 @ [m1, toolMessage o1]) (attached decls) (Inr m2),
                 ToolDispatch (callName tc2) (arguments tc2) o2]"
    "model (agent t2) = model a" "world t2 = v2"
    "conversationHistory (agent t2) = h1 @ [m1, toolMessage o1, m2, toolMessage o2]"
    unfolding t2_def d2 by (simp_all add: u2_def b1 pushMessage_def)
  \<comment> \<open>the budget is spent: the final call\<close>
  have s3: "chatLoop runtime server decls t2 = finalAnswer runtime t2"
    by (rule chatLoop_exhausted) (simp add: b2)
  from one obtain m3 w3 where
    r3: "runtime v2 (model a) (h1 @ [m1, toolMessage o1, m2, toolMessage o2]) None =
           (Inr m3, w3)"
    by blast
  have r3': "runtime (world t2) (model (agent t2)) (conversationHistory (agent t2)) None =
           (Inr m3, w3)"
    using r3 by (simp add: b2)
  note f = finalAnswer_replied [where runtime = runtime and t = t2, OF r3']
  have e: "chat runtime server userMessage a w = finalAnswer runtime t2"
    using c0 s1 s2 s3 by simp
  have g1: "calls (snd (chat runtime server userMessage a w)) =
             [ModelCall h1 (attached decls) (Inr m1),
              ToolDispatch (callName tc1) (arguments tc1) o1,
              ModelCall (h1 @ [m1, toolMessage o1]) (attached decls) (Inr m2),
              ToolDispatch (callName tc2) (arguments tc2) o2,
              ModelCall (h1 @ [m1, toolMessage o1, m2, toolMessage o2]) None (Inr m3)]"
    unfolding e f by (simp add: b2)
  have g2: "fst (chat runtime server userMessage a w) =
             Inr (AgentResponse (if content m3 = [] then ''(No response)'' else content m3)
                    [callName tc1, callName tc2])"
    unfolding e f by (simp add: b2)
  have g3: "conversationHistory (agent (snd (chat runtime server userMessage a w))) =
             h1 @ [m1, toolMessage o1, m2, toolMessage o2, m3]"
    unfolding e f by (simp add: b2 pushMessage_def pushTurn_def)
  have g4: "world (snd (chat runtime server userMessage a w)) = w3"
    unfolding e f by simp
  from r1 k1 x1 r2 k2 x2 r3 g1 g2 g3 g4 show ?thesis
    unfolding decls_def h1_def append_Cons append_Nil append_assoc by blast
qed

theorem budget_two_one_tool_per_reply_witness:
  "maxToolCalls (exampleAgent 2) = 2 \<and>
   (\<forall>w n msgs decls. \<exists>m tc w'.
      oneToolWithText w n msgs decls = (Inr m, w') \<and> tool_calls m = Some [tc]) \<and>
   map isDispatch (calls (snd (chat oneToolWithText exampleServer ''hi'' (exampleAgent 2) 0))) =
     [False, True, False, True, False] \<and>
   fst (chat oneToolWithText exampleServer ''hi'' (exampleAgent 2) 0) =
     Inr (AgentResponse ''answer'' [''search'', ''search'']) \<and>
   fst (chat oneToolEachReply exampleServer ''hi'' (exampleAgent 2) 0) =
     Inr (AgentResponse ''(No response)'' [''search'', ''search''])"
proof -
  have two: "maxToolCalls (exampleAgent 2) = 2"
    by (simp add: exampleAgent_def initialize_def)
  have one: "\<forall>w n msgs decls. \<exists>m tc w'.
      oneToolWithText w n msgs decls = (Inr m, w') \<and> tool_calls m = Some [tc]"
    by (simp add: oneToolWithText_def)
  have reply: "\<And>v n h d m w'. oneToolWithText v n h d = (Inr m, w') \<Longrightarrow>
      content m = ''answer'' \<and> tool_calls m = Some [searchCall]"
    by (auto simp: oneToolWithText_def)
  from budget_two_one_tool_per_reply
    [OF two one, where server = exampleServer and userMessage = "''hi''" and w = 0]
  have "map isDispatch (calls (snd (chat oneToolWithText exampleServer ''hi'' (exampleAgent 2) 0)))
          = [False, True, False, True, False] \<and>
        fst (chat oneToolWithText exampleServer ''hi'' (exampleAgent 2) 0) =
          Inr (AgentResponse ''answer'' [''search'', ''search''])"
    by (elim exE conjE) (auto dest!: reply simp: searchCall_def)
  moreover have "fst (chat oneToolEachReply exampleServer ''hi'' (exampleAgent 2) 0) =
     Inr (AgentResponse ''(No response)'' [''search'', ''search''])"
    by (simp add: chat_eval oneToolEachReply_def)
  ultimately show ?thesis using two one by blast
qed

subsection \<open>A failed tool call does not end the turn\<close>
















lemma callTool_not_found:
  "find (\<lambda>t. toolName t = requested) (tools mgr) = None \<Longrightarrow>
   callTool server mgr requested args w = (Inl (Error (''Tool not found: '' @ requested)), w)"
  by (simp add: callTool_def)

lemma callTool_not_connected:
  "find (\<lambda>t. toolName t = requested) (tools mgr) = Some tool \<Longrightarrow>
   serverName tool \<notin> set (clients mgr) \<Longrightarrow>
   callTool server mgr requested args w =
     (Inl (Error (''Server not connected: '' @ serverName tool)), w)"
  by (simp add: callTool_def)


subsection \<open>Clearing the history\<close>

lemma processToolCalls_systemPrompt:
  "systemPrompt (agent (processToolCalls server tcs t)) = systemPrompt (agent t)"
proof (induction tcs arbitrary: t)
  case Nil
  show ?case by simp
next
  case (Cons tc tcs)
  from dispatchToolCall_fields [of server tc t]
  have "systemPrompt (agent (dispatchToolCall server tc t)) = systemPrompt (agent t)"
    by (auto simp: pushMessage_def)
  with Cons.IH [of "dispatchToolCall server tc t"] show ?case by simp
qed

lemma finalAnswer_systemPrompt:
  "systemPrompt (agent (snd (finalAnswer runtime t))) = systemPrompt (agent t)"
proof (cases "runtime (world t) (model (agent t)) (conversationHistory (agent t)) None")
  case (Pair reply w')
  show ?thesis
  proof (cases reply)
    case (Inl e)
    with Pair finalAnswer_threw [of runtime t e w'] show ?thesis by simp
  next
    case (Inr m)
    with Pair finalAnswer_replied [of runtime t m w'] show ?thesis
      by (simp add: pushMessage_def pushTurn_def)
  qed
qed

lemma chatLoop_systemPrompt:
  "systemPrompt (agent (snd (chatLoop runtime server decls t))) = systemPrompt (agent t)"
proof (induction runtime server decls t rule: chatLoop.induct)
  case (1 runtime server decls t)
  show ?case
  proof (cases "real (toolCallCount t) < maxToolCalls (agent t)")
    case False
    then show ?thesis by (simp add: chatLoop_exhausted finalAnswer_systemPrompt)
  next
    case True
    let ?msgs = "conversationHistory (agent t)"
    obtain reply w' where
      rt: "runtime (world t) (model (agent t)) ?msgs (attached decls) = (reply, w')"
      by (cases "runtime (world t) (model (agent t)) ?msgs (attached decls)")
    show ?thesis
    proof (cases reply)
      case (Inl e)
      with rt True show ?thesis
        by (simp add: chatLoop_threw [OF True loopBody_threw])
    next
      case (Inr m)
      with rt have r: "runtime (world t) (model (agent t)) ?msgs (attached decls) = (Inr m, w')"
        by simp
      show ?thesis
      proof (cases "tool_calls m = None \<or> tool_calls m = Some []")
        case noTools: True
        from chatLoop_answered [OF True
            loopBody_answered [where runtime = runtime and t = t and decls = decls
              and server = server, OF r noTools]]
        show ?thesis by (simp add: pushMessage_def pushTurn_def)
      next
        case False
        then obtain reqs where reqs: "tool_calls m = Some reqs" "reqs \<noteq> []" by auto
        note lb = loopBody_continue [where runtime = runtime and t = t and decls = decls
            and server = server, OF r reqs]
        from "1.IH" [OF True lb] chatLoop_continue [OF True lb]
        show ?thesis by (simp add: processToolCalls_systemPrompt pushMessage_def)
      qed
    qed
  qed
qed

lemma chat_systemPrompt:
  "systemPrompt (agent (snd (chat runtime server userMessage a w))) = systemPrompt a"
  by (simp add: chat_chatLoop chatLoop_systemPrompt pushMessage_def pushTurn_def)

lemma chatTurns_systemPrompt:
  "systemPrompt (fst (chatTurns runtime server userMessages a w)) = systemPrompt a"
  by (induction userMessages arbitrary: a w) (simp_all add: chat_systemPrompt)

text \<open>
  Claim C9: whatever turns came before, after \<open>clearHistory()\<close> the conversation history
  is the system-prompt message alone, so it has length 1, and the export transcript is
  empty; the budget is untouched.
\<close>

theorem clearHistory_resets:
  "conversationHistory (clearHistory (fst (chatTurns runtime server userMessages a w))) =
     [\<lparr>role = ''system'', content = systemPrompt a, tool_calls = None\<rparr>] \<and>
   length (conversationHistory
             (clearHistory (fst (chatTurns runtime server userMessages a w)))) = 1 \<and>
   chatHistory (clearHistory (fst (chatTurns runtime server userMessages a w))) = [] \<and>
   conversationHistory (clearHistory a) =
     [\<lparr>role = ''system'', content = systemPrompt a, tool_calls = None\<rparr>] \<and>
   chatHistory (clearHistory a) = [] \<and>
   maxToolCalls (clearHistory a) = maxToolCalls a"
  by (simp add: clearHistory_def systemMessage_def chatTurns_systemPrompt)

subsection \<open>The budget is checked between replies only\<close>

lemma dispatches_append [simp]: "dispatches (xs @ ys) = dispatches xs + dispatches ys"
  by (simp add: dispatches_def)

lemma dispatches_simps [simp]:
  "dispatches [] = 0"
  "dispatches (ModelCall msgs given reply # evs) = dispatches evs"
  "dispatches (ToolDispatch n args outcome # evs) = Suc (dispatches evs)"
  by (simp_all add: dispatches_def)

lemma requestOf_dispatches:
  "map requestOf ds = map Some reqs \<Longrightarrow> dispatches ds = length reqs"
proof (induction ds arbitrary: reqs)
  case Nil
  then show ?case by simp
next
  case (Cons d ds)
  then obtain tc rest where reqs: "reqs = tc # rest" by (cases reqs) auto
  with Cons.prems have "requestOf d = Some tc" "map requestOf ds = map Some rest" by simp_all
  with Cons.IH [of rest] reqs show ?case by (cases d) simp_all
qed

lemma endsWithBatch_prepend:
  assumes "endsWithBatch evs reqs"
  shows "endsWithBatch (xs @ evs) reqs"
proof -
  from assms obtain pre msgs given m ds post where
    e: "evs = pre @ ModelCall msgs given (Inr m) # ds @ post" "tool_calls m = Some reqs"
       "map requestOf ds = map Some reqs" "dispatches post = 0"
    unfolding endsWithBatch_def by blast
  from e(1) have "xs @ evs = (xs @ pre) @ ModelCall msgs given (Inr m) # ds @ post" by simp
  with e(2-) show ?thesis unfolding endsWithBatch_def by blast
qed

lemma dispatchToolCall_calls:
  "\<exists>d. calls (dispatchToolCall server tc t) = calls t @ [d] \<and> requestOf d = Some tc"
  by (cases "callTool server (mcpClient (agent t)) (callName tc) (arguments tc) (world t)")
     (simp add: dispatchToolCall_def)

lemma processToolCalls_calls:
  "\<exists>ds. calls (processToolCalls server tcs t) = calls t @ ds \<and>
        map requestOf ds = map Some tcs"
proof (induction tcs arbitrary: t)
  case Nil
  show ?case by simp
next
  case (Cons tc tcs)
  from dispatchToolCall_calls [of server tc t] obtain d where
    d: "calls (dispatchToolCall server tc t) = calls t @ [d]" "requestOf d = Some tc" by blast
  from Cons.IH [of "dispatchToolCall server tc t"] obtain ds where
    ds: "calls (processToolCalls server tcs (dispatchToolCall server tc t)) =
           calls (dispatchToolCall server tc t) @ ds" "map requestOf ds = map Some tcs"
    by blast
  have "calls (processToolCalls server (tc # tcs) t) = calls t @ (d # ds)"
    using d(1) ds(1) by simp
  moreover have "map requestOf (d # ds) = map Some (tc # tcs)" using d(2) ds(2) by simp
  ultimately show ?case by blast
qed

lemma processToolCalls_dispatches:
  "dispatches (calls (processToolCalls server tcs t)) = dispatches (calls t) + length tcs"
proof -
  from processToolCalls_calls [of server tcs t] obtain ds where
    "calls (processToolCalls server tcs t) = calls t @ ds" "map requestOf ds = map Some tcs"
    by blast
  then show ?thesis by (simp add: requestOf_dispatches)
qed

lemma withinBudget_one_call:
  assumes "calls t' = calls t @ [ModelCall msgs given reply]"
      and "toolCallCount t' = toolCallCount t"
  shows "withinBudget t t'"
  unfolding withinBudget_def using assms
  by (intro exI [of _ "[ModelCall msgs given reply]"]) simp

lemma finalAnswer_withinBudget:
  assumes f: "finalAnswer runtime t = (out, t')"
  shows "withinBudget t t'"
proof (cases "runtime (world t) (model (agent t)) (conversationHistory (agent t)) None")
  case (Pair reply w')
  show ?thesis
  proof (cases reply)
    case (Inl e)
    with Pair f finalAnswer_threw [of runtime t e w'] show ?thesis
      by (auto intro!: withinBudget_one_call)
  next
    case (Inr m)
    with Pair f finalAnswer_replied [of runtime t m w'] show ?thesis
      by (auto intro!: withinBudget_one_call)
  qed
qed

lemma chatLoop_withinBudget:
  "chatLoop runtime server decls t = (out, t') \<Longrightarrow> withinBudget t t'"
proof (induction runtime server decls t rule: chatLoop.induct)
  case (1 runtime server decls t)
  show ?case
  proof (cases "real (toolCallCount t) < maxToolCalls (agent t)")
    case False
    with "1.prems" have "finalAnswer runtime t = (out, t')"
      by (simp add: chatLoop_exhausted)
    then show ?thesis by (rule finalAnswer_withinBudget)
  next
    case True
    let ?msgs = "conversationHistory (agent t)"
    obtain reply w' where
      rt: "runtime (world t) (model (agent t)) ?msgs (attached decls) = (reply, w')"
      by (cases "runtime (world t) (model (agent t)) ?msgs (attached decls)")
    show ?thesis
    proof (cases reply)
      case (Inl e)
      with rt have "loopBody runtime server decls t =
          Threw e (t\<lparr>calls := calls t @ [ModelCall ?msgs (attached decls) (Inl e)],
                     world := w'\<rparr>)"
        by (simp add: loopBody_threw)
      with True "1.prems"
      have "t' = t\<lparr>calls := calls t @ [ModelCall ?msgs (attached decls) (Inl e)],
                   world := w'\<rparr>"
        by (simp add: chatLoop_threw)
      then show ?thesis by (auto intro!: withinBudget_one_call)
    next
      case (Inr m)
      with rt have r: "runtime (world t) (model (agent t)) ?msgs (attached decls) = (Inr m, w')"
        by simp
      show ?thesis
      proof (cases "tool_calls m = None \<or> tool_calls m = Some []")
        case noTools: True
        from loopBody_answered [where runtime = runtime and t = t and decls = decls
            and server = server, OF r noTools] True "1.prems"
        have "t' = t\<lparr>agent := pushTurn (assistantTurn (content m) (used t))
                           (pushMessage m (agent t)),
                calls := calls t @ [ModelCall ?msgs (attached decls) (Inr m)],
                world := w'\<rparr>"
          by (simp add: chatLoop_answered)
        then show ?thesis by (auto intro!: withinBudget_one_call)
      next
        case False
        then obtain reqs where reqs: "tool_calls m = Some reqs" "reqs \<noteq> []" by auto
        define u where "u = t\<lparr>agent := pushMessage m (agent t),
                calls := calls t @ [ModelCall ?msgs (attached decls) (Inr m)],
                world := w'\<rparr>"
        define t1 where "t1 = processToolCalls server reqs u"
        have lb: "loopBody runtime server decls t = Continue t1"
          using loopBody_continue [where runtime = runtime and t = t and decls = decls
            and server = server, OF r reqs] by (simp add: t1_def u_def)
        with True "1.prems" have rec: "chatLoop runtime server decls t1 = (out, t')"
          by (simp add: chatLoop_continue)
        from "1.IH" [OF True lb rec] obtain ext1 where
          e1: "calls t' = calls t1 @ ext1"
              "toolCallCount t' = toolCallCount t1 + dispatches ext1"
          and b1: "dispatches ext1 = 0 \<or>
             (\<exists>later. endsWithBatch ext1 later \<and>
               real (toolCallCount t') < maxToolCalls (agent t1) + real (length later))"
          unfolding withinBudget_def by blast
        from processToolCalls_calls [of server reqs u] obtain ds where
          ds: "calls t1 = calls u @ ds" "map requestOf ds = map Some reqs"
          unfolding t1_def by blast
        have dn: "dispatches ds = length reqs" using ds(2) by (rule requestOf_dispatches)
        have c1: "toolCallCount t1 = toolCallCount t + length reqs"
          "maxToolCalls (agent t1) = maxToolCalls (agent t)"
          by (simp_all add: t1_def u_def processToolCalls_budget pushMessage_def)
        let ?ext = "ModelCall ?msgs (attached decls) (Inr m) # ds @ ext1"
        have x1: "calls t' = calls t @ ?ext" using e1(1) ds(1) by (simp add: u_def)
        have x2: "toolCallCount t' = toolCallCount t + dispatches ?ext"
          using e1(2) c1(1) dn by simp
        have x3: "\<exists>later. endsWithBatch ?ext later \<and>
               real (toolCallCount t') < maxToolCalls (agent t) + real (length later)"
        proof (cases "dispatches ext1 = 0")
          case last: True
          have "endsWithBatch ?ext reqs"
            unfolding endsWithBatch_def
            using reqs(1) ds(2) last
            by (intro exI [of _ "[]"] exI [of _ ?msgs] exI [of _ "attached decls"]
                exI [of _ m] exI [of _ ds] exI [of _ ext1]) simp
          moreover
          have "real (toolCallCount t') < maxToolCalls (agent t) + real (length reqs)"
            using e1(2) c1(1) last True by simp
          ultimately show ?thesis by blast
        next
          case False
          with b1 obtain later where
            l: "endsWithBatch ext1 later"
               "real (toolCallCount t') < maxToolCalls (agent t1) + real (length later)"
            by blast
          from endsWithBatch_prepend [OF l(1), of "ModelCall ?msgs (attached decls) (Inr m) # ds"]
          have "endsWithBatch ?ext later" by simp
          with l(2) c1(2) show ?thesis by auto
        qed
        from x1 x2 x3 show ?thesis unfolding withinBudget_def by blast
      qed
    qed
  qed
qed

lemma chat_withinBudget:
  "dispatches (calls (snd (chat runtime server userMessage a w))) = 0 \<or>
   (\<exists>reqs. endsWithBatch (calls (snd (chat runtime server userMessage a w))) reqs \<and>
      real (dispatches (calls (snd (chat runtime server userMessage a w))))
        < maxToolCalls a + real (length reqs))"
proof -
  define t0 :: "'a turn" where "t0 =
     \<lparr>agent = pushMessage \<lparr>role = ''user'', content = userMessage, tool_calls = None\<rparr>
                (pushTurn (ChatTurn ''user'' userMessage None) a),
      toolCallCount = 0, used = [], calls = [], world = w\<rparr>"
  define decls where "decls = getOllamaTools (mcpClient a)"
  have c0: "chat runtime server userMessage a w = chatLoop runtime server decls t0"
    by (simp add: chat_chatLoop t0_def decls_def)
  obtain out t' where res: "chatLoop runtime server decls t0 = (out, t')"
    by (cases "chatLoop runtime server decls t0")
  have b0: "calls t0 = []" "toolCallCount t0 = 0" "maxToolCalls (agent t0) = maxToolCalls a"
    by (simp_all add: t0_def pushMessage_def pushTurn_def)
  from chatLoop_withinBudget [OF res] obtain ext where
    "calls t' = calls t0 @ ext" "toolCallCount t' = toolCallCount t0 + dispatches ext"
    "dispatches ext = 0 \<or>
       (\<exists>reqs. endsWithBatch ext reqs \<and>
          real (toolCallCount t') < maxToolCalls (agent t0) + real (length reqs))"
    unfolding withinBudget_def by blast
  with b0 show ?thesis by (auto simp: c0 res)
qed

lemma integral_budget:
  assumes "real d < real_of_int k + real n"
  shows "int d \<le> k - 1 + int n"
proof -
  from assms have "real_of_int (int d) < real_of_int (k + int n)" by simp
  then have "int d < k + int n" by (simp only: of_int_less_iff)
  then show ?thesis by simp
qed

text \<open>
  Claim C10, as stated: the number of dispatches of a turn is bounded by
  \<open>maxToolCalls - 1\<close> plus the number of invocations in the final reply.  The budget is a
  number of the configuration file and need not be whole: with \<open>maxToolCalls = 2.5\<close> and
  a model that requests one invocation in every reply (the final one included) the loop
  runs at counts 0, 1 and 2 and the turn makes 3 dispatches, above \<open>2.5 - 1 + 1\<close>.  And
  with \<open>maxToolCalls = 1\<close> and a model that requests three invocations at once and then
  answers, the turn makes 3 dispatches while its final reply requests none.
\<close>

theorem budget_bound_counterexample:
  "maxToolCalls (exampleAgent (5 / 2)) = 5 / 2 \<and>
   map invocations (calls (snd (chat oneToolEachReply exampleServer ''hi'' (exampleAgent (5 / 2)) 0)))
     = [1, 0, 1, 0, 1, 0, 1] \<and>
   dispatches (calls (snd (chat oneToolEachReply exampleServer ''hi'' (exampleAgent (5 / 2)) 0)))
     = 3 \<and>
   \<not> real (dispatches
            (calls (snd (chat oneToolEachReply exampleServer ''hi'' (exampleAgent (5 / 2)) 0))))
       \<le> maxToolCalls (exampleAgent (5 / 2)) - 1 +
         real (invocations (last
            (calls (snd (chat oneToolEachReply exampleServer ''hi'' (exampleAgent (5 / 2)) 0))))) \<and>
   maxToolCalls (exampleAgent 1) = 1 \<and>
   map invocations (calls (snd (chat threeAtOnce exampleServer ''hi'' (exampleAgent 1) 0)))
     = [3, 0, 0, 0, 0] \<and>
   dispatches (calls (snd (chat threeAtOnce exampleServer ''hi'' (exampleAgent 1) 0))) = 3 \<and>
   \<not> real (dispatches (calls (snd (chat threeAtOnce exampleServer ''hi'' (exampleAgent 1) 0))))
       \<le> maxToolCalls (exampleAgent 1) - 1 +
         real (invocations (last
            (calls (snd (chat threeAtOnce exampleServer ''hi'' (exampleAgent 1) 0)))))"
  by (simp add: chat_eval oneToolEachReply_def threeAtOnce_def)

text \<open>
  Claim C10, amended: the loop of \<open>chat\<close> reads the budget only before a model call.
  The inner loop dispatches every invocation of a reply whatever the count and the budget
  are: it adds as many dispatches as the reply has invocations.  So the number of
  dispatches of a turn can exceed \<open>maxToolCalls\<close>.  A turn either dispatches nothing, or
  its calls end with the dispatches of all invocations \<open>reqs\<close> of one reply (the last reply
  whose invocations were dispatched; only model calls follow), and the number of
  dispatches of the turn is less than \<open>maxToolCalls\<close> plus the number of those
  invocations; when \<open>maxToolCalls\<close> is a whole number it is at most \<open>maxToolCalls - 1\<close>
  plus the number of those invocations.
\<close>

theorem budget_checked_between_replies:
  "dispatches (calls (processToolCalls server tcs t)) = dispatches (calls t) + length tcs \<and>
   toolCallCount (processToolCalls server tcs t) = toolCallCount t + length tcs \<and>
   (dispatches (calls (snd (chat runtime server userMessage a w))) = 0 \<or>
    (\<exists>pre msgs given m reqs ds post.
       calls (snd (chat runtime server userMessage a w)) =
         pre @ ModelCall msgs given (Inr m) # ds @ post \<and>
       tool_calls m = Some reqs \<and> map requestOf ds = map Some reqs \<and>
       dispatches post = 0 \<and>
       real (dispatches (calls (snd (chat runtime server userMessage a w))))
         < maxToolCalls a + real (length reqs) \<and>
       (\<forall>k. maxToolCalls a = real_of_int k \<longrightarrow>
          int (dispatches (calls (snd (chat runtime server userMessage a w))))
            \<le> k - 1 + int (length reqs)))) \<and>
   (\<exists>(busy :: nat model_runtime) srv ag.
       maxToolCalls ag < real (dispatches (calls (snd (chat busy srv ''hi'' ag 0)))))"
proof -
  have p: "dispatches (calls (processToolCalls server tcs t)) =
             dispatches (calls t) + length tcs"
    by (rule processToolCalls_dispatches)
  have c: "toolCallCount (processToolCalls server tcs t) = toolCallCount t + length tcs"
    by (simp add: processToolCalls_budget)
  have b: "dispatches (calls (snd (chat runtime server userMessage a w))) = 0 \<or>
    (\<exists>pre msgs given m reqs ds post.
       calls (snd (chat runtime server userMessage a w)) =
         pre @ ModelCall msgs given (Inr m) # ds @ post \<and>
       tool_calls m = Some reqs \<and> map requestOf ds = map Some reqs \<and>
       dispatches post = 0 \<and>
       real (dispatches (calls (snd (chat runtime server userMessage a w))))
         < maxToolCalls a + real (length reqs) \<and>
       (\<forall>k. maxToolCalls a = real_of_int k \<longrightarrow>
          int (dispatches (calls (snd (chat runtime server userMessage a w))))
            \<le> k - 1 + int (length reqs)))"
  proof (cases "dispatches (calls (snd (chat runtime server userMessage a w))) = 0")
    case True
    then show ?thesis by simp
  next
    case False
    with chat_withinBudget [of runtime server userMessage a w]
    obtain pre msgs given m reqs ds post where
      e: "calls (snd (chat runtime server userMessage a w)) =
            pre @ ModelCall msgs given (Inr m) # ds @ post"
         "tool_calls m = Some reqs" "map requestOf ds = map Some reqs" "dispatches post = 0"
      and r: "real (dispatches (calls (snd (chat runtime server userMessage a w))))
                < maxToolCalls a + real (length reqs)"
      unfolding endsWithBatch_def by blast
    have "\<forall>k. maxToolCalls a = real_of_int k \<longrightarrow>
          int (dispatches (calls (snd (chat runtime server userMessage a w))))
            \<le> k - 1 + int (length reqs)"
      using r by (auto intro: integral_budget)
    with e r show ?thesis by blast
  qed
  have "maxToolCalls (exampleAgent 1)
          < real (dispatches (calls (snd (chat threeAtOnce exampleServer ''hi'' (exampleAgent 1) 0))))"
    by (simp add: chat_eval threeAtOnce_def)
  then have x: "\<exists>(busy :: nat model_runtime) srv ag.
       maxToolCalls ag < real (dispatches (calls (snd (chat busy srv ''hi'' ag 0))))"
    by blast
  from p c b x show ?thesis by blast
qed

theorem budget_checked_between_replies_witness:
  "maxToolCalls (exampleAgent 1) = real_of_int 1 \<and>
   dispatches (calls (snd (chat threeAtOnce exampleServer ''hi'' (exampleAgent 1) 0))) = 3 \<and>
   (\<exists>pre msgs given m reqs ds post.
       calls (snd (chat threeAtOnce exampleServer ''hi'' (exampleAgent 1) 0)) =
         pre @ ModelCall msgs given (Inr m) # ds @ post \<and>
       tool_calls m = Some reqs \<and> map requestOf ds = map Some reqs \<and>
       dispatches post = 0 \<and>
       real (dispatches (calls (snd (chat threeAtOnce exampleServer ''hi'' (exampleAgent 1) 0))))
         < maxToolCalls (exampleAgent 1) + real (length reqs) \<and>
       int (dispatches (calls (snd (chat threeAtOnce exampleServer ''hi'' (exampleAgent 1) 0))))
         \<le> 1 - 1 + int (length reqs))"
proof -
  have m: "maxToolCalls (exampleAgent 1) = real_of_int 1"
    by (simp add: exampleAgent_def initialize_def)
  have d: "dispatches (calls (snd (chat threeAtOnce exampleServer ''hi'' (exampleAgent 1) 0))) = 3"
    by (simp add: chat_eval threeAtOnce_def)
  from budget_checked_between_replies
    [where runtime = threeAtOnce and server = exampleServer and userMessage = "''hi''"
       and a = "exampleAgent 1" and w = 0]
  have "dispatches (calls (snd (chat threeAtOnce exampleServer ''hi'' (exampleAgent 1) 0))) = 0 \<or>
    (\<exists>pre msgs given m reqs ds post.
       calls (snd (chat threeAtOnce exampleServer ''hi'' (exampleAgent 1) 0)) =
         pre @ ModelCall msgs given (Inr m) # ds @ post \<and>
       tool_calls m = Some reqs \<and> map requestOf ds = map Some reqs \<and>
       dispatches post = 0 \<and>
       real (dispatches (calls (snd (chat threeAtOnce exampleServer ''hi'' (exampleAgent 1) 0))))
         < maxToolCalls (exampleAgent 1) + real (length reqs) \<and>
       (\<forall>k. maxToolCalls (exampleAgent 1) = real_of_int k \<longrightarrow>
          int (dispatches (calls (snd (chat threeAtOnce exampleServer ''hi'' (exampleAgent 1) 0))))
            \<le> k - 1 + int (length reqs)))"
    by blast
  with d obtain pre msgs given mm reqs ds post where
    e: "calls (snd (chat threeAtOnce exampleServer ''hi'' (exampleAgent 1) 0)) =
         pre @ ModelCall msgs given (Inr mm) # ds @ post"
       "tool_calls mm = Some reqs" "map requestOf ds = map Some reqs" "dispatches post = 0"
       "real (dispatches (calls (snd (chat threeAtOnce exampleServer ''hi'' (exampleAgent 1) 0))))
         < maxToolCalls (exampleAgent 1) + real (length reqs)"
    and k: "\<forall>k. maxToolCalls (exampleAgent 1) = real_of_int k \<longrightarrow>
          int (dispatches (calls (snd (chat threeAtOnce exampleServer ''hi'' (exampleAgent 1) 0))))
            \<le> k - 1 + int (length reqs)"
    by auto
  from k m
  have "int (dispatches (calls (snd (chat threeAtOnce exampleServer ''hi'' (exampleAgent 1) 0))))
            \<le> 1 - 1 + int (length reqs)"
    by blast
  with e m d show ?thesis by blast
qed

section \<open>Properties of the round-trip runner\<close>

lemmas runTurn_eval = runTurn_def cleanup_def escapeHandler_def escapeKey_def
  exampleRunner_def setWaiting_def RawInputHandler_def handleKey_defs

text \<open>
  Claim C1 on the code: the user submits \<open>hi\<close> and presses ESC while the orchestrator is
  at work, with a budget of 2 and a model that asks for one tool in every reply.  The
  runner returns \<open>cancelled\<close>, clears \<open>waiting\<close> and the controller's signal is aborted;
  but \<open>Agent.chat\<close> has no parameter for the signal and hands nothing to its model
  calls, so the orchestrator makes all five calls of an undisturbed turn (three model
  calls, two dispatches) and leaves the agent as that turn does.
\<close>

theorem cancelled_turn_runs_on:
  "runTurn oneToolEachReply exampleServer ''hi'' [TimerTick, KeyData escapeKey, PollWake]
     (exampleRunner 2) =
   Some (Cancelled,
         (exampleRunner 2)
           \<lparr>inputHandler := RawInputHandler True,
            sessionAgent :=
              agent (snd (chat oneToolEachReply exampleServer ''hi'' (exampleAgent 2) 0)),
            outside := 3, cancelled := True, aborted := True\<rparr>,
         calls (snd (chat oneToolEachReply exampleServer ''hi'' (exampleAgent 2) 0))) \<and>
   waiting (RawInputHandler True) = False \<and>
   dispatches (calls (snd (chat oneToolEachReply exampleServer ''hi'' (exampleAgent 2) 0))) = 2 \<and>
   length (calls (snd (chat oneToolEachReply exampleServer ''hi'' (exampleAgent 2) 0))) = 5"
  by (simp add: runTurn_eval chat_eval oneToolEachReply_def)

text \<open>
  Claim C6 on the code: the model runtime cannot be reached, so the promise of \<open>chat\<close>
  is rejected and the race throws into the \<open>catch\<close> block.  The turn ends with
  \<open>waiting\<close> cleared, but the interval timer is still running and the escape listener is
  still registered.
\<close>

theorem rejected_turn_leaks:
  "runTurn unreachable exampleServer ''hi'' [TimerTick, ChatSettled] (exampleRunner 2) =
   Some (Failed (Error ''fetch failed''),
         (exampleRunner 2)
           \<lparr>sessionAgent :=
              agent (snd (chat unreachable exampleServer ''hi'' (exampleAgent 2) 0)),
            timerRunning := True, escapeListeners := 1\<rparr>,
         calls (snd (chat unreachable exampleServer ''hi'' (exampleAgent 2) 0))) \<and>
   waiting (inputHandler (exampleRunner 2)) = False"
  by (simp add: runTurn_eval chat_eval unreachable_def)

text \<open>
  The same holds for every turn that ends in the \<open>catch\<close> block, and the two other ways
  a turn ends do clean up.
\<close>

lemma race_frame:
  "race settled evs s = Some (result, s') \<Longrightarrow>
   escapeListeners s' = escapeListeners s \<and>
   ((timerRunning s \<longleftrightarrow> \<not> cancelled s) \<longrightarrow> (timerRunning s' \<longleftrightarrow> \<not> cancelled s'))"
proof (induction settled evs s rule: race.induct)
  case (1 settled s)
  then show ?case by simp
next
  case (2 settled key evs s)
  obtain h eff where hk: "handleKey key (inputHandler s) = (h, eff)"
    by (cases "handleKey key (inputHandler s)")
  show ?case
  proof (cases "eff = Exit")
    case True
    with hk "2.prems" show ?thesis by auto
  next
    case False
    with hk "2.prems"
    have r: "race settled evs (escapeHandler key (s\<lparr>inputHandler := h\<rparr>)) = Some (result, s')"
      by (cases eff) simp_all
    from "2.IH" [OF hk [symmetric] _ r] False
    have "escapeListeners s' = escapeListeners (escapeHandler key (s\<lparr>inputHandler := h\<rparr>)) \<and>
      ((timerRunning (escapeHandler key (s\<lparr>inputHandler := h\<rparr>)) \<longleftrightarrow>
          \<not> cancelled (escapeHandler key (s\<lparr>inputHandler := h\<rparr>))) \<longrightarrow>
       (timerRunning s' \<longleftrightarrow> \<not> cancelled s'))"
      by (cases eff) simp_all
    then show ?thesis by (simp add: escapeHandler_def split: if_splits)
  qed
next
  case (3 settled evs s)
  then show ?case by simp
next
  case (4 settled evs s)
  then show ?case by (auto split: if_splits)
next
  case (5 settled evs s)
  then show ?case by (auto split: sum.splits)
qed

lemma runTurn_ends:
  assumes "runTurn runtime server input evs s = Some (outcome, s', made)"
  shows "\<not> waiting (inputHandler s') \<or> outcome = Exited"
    and "outcome = Cancelled \<or> (\<exists>r. outcome = Responded r) \<Longrightarrow>
           \<not> timerRunning s' \<and> escapeListeners s' = escapeListeners s"
    and "\<exists>e. outcome = Failed e \<Longrightarrow>
           escapeListeners s' = escapeListeners s + 1 \<and> (timerRunning s' \<longleftrightarrow> \<not> cancelled s')"
proof -
  obtain settled t where c: "chat runtime server input (sessionAgent s) (outside s) = (settled, t)"
    by (cases "chat runtime server input (sessionAgent s) (outside s)")
  define s4 where "s4 = s\<lparr>inputHandler := setWaiting True (inputHandler s),
      cancelled := False, aborted := False, escapeListeners := escapeListeners s + 1,
      timerRunning := True, sessionAgent := agent t, outside := world t\<rparr>"
  from assms c obtain result s5 where r: "race settled evs s4 = Some (result, s5)"
    and o: "(outcome, s', made) =
      (case result of
         RaceResponse response \<Rightarrow> (Responded response, cleanup s5, calls t)
       | RaceCancelled \<Rightarrow> (Cancelled, cleanup s5, calls t)
       | RaceRejected e \<Rightarrow>
           (Failed e, s5\<lparr>inputHandler := setWaiting False (inputHandler s5)\<rparr>, calls t)
       | ProcessExit \<Rightarrow> (Exited, s5, calls t))"
    by (auto simp: runTurn_def Let_def s4_def split: option.splits race_result.splits)
  from race_frame [OF r]
  have f: "escapeListeners s5 = escapeListeners s + 1" "timerRunning s5 \<longleftrightarrow> \<not> cancelled s5"
    by (simp_all add: s4_def)
  from o show "\<not> waiting (inputHandler s') \<or> outcome = Exited"
    by (cases result) (simp_all add: cleanup_def setWaiting_def)
  from o f show "outcome = Cancelled \<or> (\<exists>r. outcome = Responded r) \<Longrightarrow>
           \<not> timerRunning s' \<and> escapeListeners s' = escapeListeners s"
    by (cases result) (auto simp: cleanup_def)
  from o f show "\<exists>e. outcome = Failed e \<Longrightarrow>
           escapeListeners s' = escapeListeners s + 1 \<and> (timerRunning s' \<longleftrightarrow> \<not> cancelled s')"
    by (cases result) auto
qed

text \<open>
  The flag set by ESC is read only at the next wake-up of \<open>checkCancelled\<close>: when the
  promise of \<open>chat\<close> settles between the key and that wake-up, the race is decided by
  the response.
\<close>

lemma escape_then_settled:
  "fst (the (runTurn oneToolEachReply exampleServer ''hi''
               [KeyData escapeKey, ChatSettled, PollWake] (exampleRunner 2))) =
     Responded (AgentResponse ''(No response)'' [''search'', ''search''])"
  by (simp add: runTurn_eval chat_eval oneToolEachReply_def)

end
